theory Spec2Isabelle
  imports Complex_Main "HOL-Library.AList"
begin

section \<open>Adjoint media of tidy3d: volume discretisation and gradients\<close>

text \<open>
  The development follows \<^verbatim>\<open>tidy3d/plugins/adjoint/components/medium.py\<close> and
  \<^verbatim>\<open>tidy3d_core/convert.py\<close>.  Python floats are read as real numbers with exact
  arithmetic: rounding, infinities and NaN are outside the model.  Every exception the
  code can raise on the modelled paths is a value of \<open>py_error\<close>.
\<close>

subsection \<open>Python and numpy primitives\<close>

datatype py_error =
  KeyError | ZeroDivisionError | ValueError | IndexError | UnboundLocalError | OtherError string

text \<open>\<^verbatim>\<open>int(x)\<close> on a float truncates towards zero.\<close>

definition py_int :: "real \<Rightarrow> int" where
  "py_int x = (if 0 \<le> x then \<lfloor>x\<rfloor> else \<lceil>x\<rceil>)"

text \<open>
  \<^verbatim>\<open>np.linspace(start, stop, num)\<close> with the default \<^verbatim>\<open>endpoint=True\<close>: a negative
  \<^verbatim>\<open>num\<close> raises \<^verbatim>\<open>ValueError\<close>; otherwise \<^verbatim>\<open>arange(0, num)\<close> is scaled by
  \<^verbatim>\<open>step = delta / div\<close> with \<^verbatim>\<open>div = num - 1\<close> (by \<^verbatim>\<open>delta\<close> itself when
  \<^verbatim>\<open>div = 0\<close>), shifted by \<^verbatim>\<open>start\<close>, and the last entry is overwritten with
  \<^verbatim>\<open>stop\<close> when \<^verbatim>\<open>num > 1\<close>.
\<close>

definition linspace :: "real \<Rightarrow> real \<Rightarrow> int \<Rightarrow> py_error + real list" where
  "linspace start stop num =
     (if num < 0 then Inl ValueError
      else
        (let n = nat num;
             div_n = n - 1;
             delta = stop - start;
             y0 = map real [0..<n];
             y1 = (if 0 < div_n then map (\<lambda>v. v * (delta / real div_n)) y0
                   else map (\<lambda>v. v * delta) y0);
             y2 = map (\<lambda>v. v + start) y1
         in Inr (if 1 < n then y2[n - 1 := stop] else y2)))"

subsection \<open>Bounds\<close>

type_synonym coordinate = "real \<times> real \<times> real"
type_synonym bound = "coordinate \<times> coordinate"

text \<open>
  Modelled from the spec: \<^verbatim>\<open>Geometry.bounds_intersection\<close> is defined in
  \<^verbatim>\<open>tidy3d/components/geometry.py\<close>, which is not among the source files.  The spec
  has a Bound keep \<open>min \<le> max\<close> on every axis, and has the axis-aligned intersection
  of the monitor bounds and the simulation bounds contribute zero thickness on an axis
  where the two do not overlap.  On each axis the lower edge is the larger of the two
  minima; the upper edge is the smaller of the two maxima where the bounds overlap, and
  the lower edge again where they do not.
\<close>

definition bounds_intersection :: "bound \<Rightarrow> bound \<Rightarrow> bound" where
  "bounds_intersection bounds1 bounds2 =
     (case (bounds1, bounds2) of
        (((x1, y1, z1), (X1, Y1, Z1)), ((x2, y2, z2), (X2, Y2, Z2))) \<Rightarrow>
          ((max x1 x2, max y1 y2, max z1 z2),
           (max (max x1 x2) (min X1 X2), max (max y1 y2) (min Y1 Y2), max (max z1 z2) (min Z1 Z2))))"

text \<open>\<^verbatim>\<open>zip("xyz", rmin, rmax)\<close>\<close>

definition zip_xyz :: "bound \<Rightarrow> (string \<times> real \<times> real) list" where
  "zip_xyz b =
     (case b of ((x0, y0, z0), (x1, y1, z1)) \<Rightarrow>
        [(''x'', x0, x1), (''y'', y0, y1), (''z'', z0, z1)])"

subsection \<open>\<^verbatim>\<open>JaxMedium._get_volume_disc\<close>\<close>

definition PTS_PER_WVL_INTEGRATION :: real where
  "PTS_PER_WVL_INTEGRATION = 20"

type_synonym vol_coords = "(string \<times> real list) list"

text \<open>
  \<^verbatim>\<open>num_cells_dim = int(size * PTS_PER_WVL_INTEGRATION / wvl_mat) + 1\<close>; the float
  division raises \<^verbatim>\<open>ZeroDivisionError\<close> when \<^verbatim>\<open>wvl_mat\<close> is zero.
\<close>

definition num_cells_dim :: "real \<Rightarrow> real \<Rightarrow> py_error + int" where
  "num_cells_dim size_d wvl_mat =
     (if wvl_mat = 0 then Inl ZeroDivisionError
      else Inr (py_int (size_d * PTS_PER_WVL_INTEGRATION / wvl_mat) + 1))"

text \<open>
  One pass of the loop body over an axis \<open>(coord_name, min_edge, max_edge)\<close>, on the
  loop state \<open>(vol_coords, d_vol)\<close>.  \<^verbatim>\<open>vol_coords\<close> is a dict in insertion order.
\<close>

definition volume_step ::
  "real \<Rightarrow> vol_coords \<times> real \<Rightarrow> string \<times> real \<times> real \<Rightarrow> py_error + (vol_coords \<times> real)" where
  "volume_step wvl_mat st ax =
     (case (st, ax) of ((vc, d_vol), (coord_name, min_edge, max_edge)) \<Rightarrow>
        (let size_d = max_edge - min_edge in
         if size_d = 0 then Inr (vc, d_vol)
         else
           (case num_cells_dim size_d wvl_mat of
              Inl e \<Rightarrow> Inl e
            | Inr n \<Rightarrow>
                if n = 0 then Inl ZeroDivisionError
                else
                  (let d_len = size_d / real_of_int n in
                   case linspace (min_edge + d_len / 2) (max_edge - d_len / 2) n of
                     Inl e \<Rightarrow> Inl e
                   | Inr coords_interp \<Rightarrow>
                       Inr (AList.update coord_name coords_interp vc, d_vol * d_len)))))"

fun volume_loop ::
  "real \<Rightarrow> vol_coords \<times> real \<Rightarrow> (string \<times> real \<times> real) list \<Rightarrow> py_error + (vol_coords \<times> real)" where
  "volume_loop wvl_mat st [] = Inr st"
| "volume_loop wvl_mat st (ax # axes) =
     (case volume_step wvl_mat st ax of
        Inl e \<Rightarrow> Inl e
      | Inr st' \<Rightarrow> volume_loop wvl_mat st' axes)"

text \<open>
  The method reads the forward data only through
  \<^verbatim>\<open>grad_data.monitor.geometry.bounds\<close>, here the argument \<open>mnt_bounds\<close>.
\<close>

definition get_volume_disc :: "bound \<Rightarrow> bound \<Rightarrow> real \<Rightarrow> py_error + (vol_coords \<times> real)" where
  "get_volume_disc mnt_bounds sim_bounds wvl_mat =
     volume_loop wvl_mat ([], 1) (zip_xyz (bounds_intersection mnt_bounds sim_bounds))"

text \<open>
  Names for what the loop computes on one axis \<open>(coord_name, min_edge, max_edge)\<close>: an
  axis contributes when its extent is not zero; its number of cells is the value of
  \<^verbatim>\<open>num_cells_dim\<close> and its cell width the value of \<^verbatim>\<open>d_len\<close>.
\<close>

definition contributes :: "string \<times> real \<times> real \<Rightarrow> bool" where
  "contributes ax = (case ax of (coord_name, min_edge, max_edge) \<Rightarrow> max_edge - min_edge \<noteq> 0)"

definition axis_cells :: "real \<Rightarrow> string \<times> real \<times> real \<Rightarrow> int" where
  "axis_cells wvl_mat ax =
     (case ax of (coord_name, min_edge, max_edge) \<Rightarrow>
        py_int ((max_edge - min_edge) * PTS_PER_WVL_INTEGRATION / wvl_mat) + 1)"

definition axis_width :: "real \<Rightarrow> string \<times> real \<times> real \<Rightarrow> real" where
  "axis_width wvl_mat ax =
     (case ax of (coord_name, min_edge, max_edge) \<Rightarrow>
        (max_edge - min_edge) / real_of_int (axis_cells wvl_mat ax))"

text \<open>
  Cell-centred sample coordinates in the words of the spec: \<open>n\<close> points, the first one
  half a cell width above the lower edge and each further one a cell width apart.
\<close>

definition cell_centres :: "real \<Rightarrow> real \<Rightarrow> nat \<Rightarrow> real list" where
  "cell_centres min_edge width n = map (\<lambda>i. min_edge + width / 2 + real i * width) [0..<n]"

subsection \<open>Arrays and field data\<close>

text \<open>
  A real-valued \<^verbatim>\<open>numpy\<close> array: its shape and its entries in row-major order.
  \<^verbatim>\<open>reshape\<close> raises \<^verbatim>\<open>ValueError\<close> unless the new shape has as many entries.
\<close>

record ndarray =
  nd_shape :: "nat list"
  nd_data :: "real list"

definition reshape :: "nat list \<Rightarrow> ndarray \<Rightarrow> py_error + ndarray" where
  "reshape shp a =
     (if prod_list shp = length (nd_data a) then Inr (a\<lparr>nd_shape := shp\<rparr>) else Inl ValueError)"

definition nd_scale :: "real \<Rightarrow> ndarray \<Rightarrow> ndarray" where
  "nd_scale c a = a\<lparr>nd_data := map (\<lambda>v. c * v) (nd_data a)\<rparr>"

definition nd_sum :: "ndarray \<Rightarrow> real" where
  "nd_sum a = sum_list (nd_data a)"

text \<open>
  The field arrays are \<^verbatim>\<open>xarray\<close> objects.  The code only composes library operations
  on them, so the array type \<open>'da\<close> and the operations are parameters: the product
  \<^verbatim>\<open>e_fwd * e_adj\<close>, \<^verbatim>\<open>.real\<close>, \<^verbatim>\<open>.isel(**kwargs)\<close>, \<^verbatim>\<open>.interp(**kwargs)\<close> and
  \<^verbatim>\<open>.values\<close>.  Keyword arguments are passed as a dict in the order they are written.
  Whatever is proved holds for every behaviour of the library, raising included.
\<close>

record 'da xr_ops =
  xr_mul :: "'da \<Rightarrow> 'da \<Rightarrow> py_error + 'da"
  xr_real :: "'da \<Rightarrow> 'da"
  xr_isel :: "(string \<times> nat) list \<Rightarrow> 'da \<Rightarrow> py_error + 'da"
  xr_interp :: "(string \<times> real list) list \<Rightarrow> 'da \<Rightarrow> py_error + 'da"
  xr_values :: "'da \<Rightarrow> ndarray"

text \<open>
  \<^verbatim>\<open>FieldData\<close>, as far as the code reads it: \<^verbatim>\<open>monitor.geometry.bounds\<close> and the
  dict \<^verbatim>\<open>field_components\<close>.
\<close>

record 'da FieldData =
  monitor_bounds :: bound
  field_components :: "string \<rightharpoonup> 'da"

subsection \<open>\<^verbatim>\<open>JaxMedium\<close>\<close>

text \<open>
  \<^verbatim>\<open>permittivity\<close> is the field declared in the class; the fields inherited from
  \<^verbatim>\<open>Medium\<close> are kept together as \<open>medium_fields\<close>, of a type left open.
\<close>

record 'inh JaxMedium =
  permittivity :: real
  medium_fields :: 'inh

definition field_contribution ::
  "'da xr_ops \<Rightarrow> string \<Rightarrow> 'da FieldData \<Rightarrow> 'da FieldData \<Rightarrow> bound \<Rightarrow> real \<Rightarrow> py_error + real" where
  "field_contribution ops field grad_data_fwd grad_data_adj sim_bounds wvl_mat =
     (case get_volume_disc (monitor_bounds grad_data_fwd) sim_bounds wvl_mat of
        Inl e \<Rightarrow> Inl e
      | Inr (vol_coords, d_vol) \<Rightarrow>
     (case field_components grad_data_fwd field of
        None \<Rightarrow> Inl KeyError
      | Some e_fwd \<Rightarrow>
     (case field_components grad_data_adj field of
        None \<Rightarrow> Inl KeyError
      | Some e_adj \<Rightarrow>
     (case xr_mul ops e_fwd e_adj of
        Inl e \<Rightarrow> Inl e
      | Inr prod_fa \<Rightarrow>
     (let e_dotted = xr_real ops prod_fa in
      case xr_isel ops [(''f'', 0)] e_dotted of
        Inl e \<Rightarrow> Inl e
      | Inr e_sel \<Rightarrow>
     (case xr_interp ops vol_coords e_sel of
        Inl e \<Rightarrow> Inl e
      | Inr integrand \<Rightarrow> Inr (d_vol * nd_sum (xr_values ops integrand))))))))"

text \<open>The loop \<^verbatim>\<open>for field in ("Ex", "Ey", "Ez"): vjp_permittivty += ...\<close>\<close>

fun vjp_accumulate ::
  "'da xr_ops \<Rightarrow> 'da FieldData \<Rightarrow> 'da FieldData \<Rightarrow> bound \<Rightarrow> real \<Rightarrow> real \<Rightarrow> string list
     \<Rightarrow> py_error + real" where
  "vjp_accumulate ops grad_data_fwd grad_data_adj sim_bounds wvl_mat vjp_permittivty [] =
     Inr vjp_permittivty"
| "vjp_accumulate ops grad_data_fwd grad_data_adj sim_bounds wvl_mat vjp_permittivty (field # rest) =
     (case field_contribution ops field grad_data_fwd grad_data_adj sim_bounds wvl_mat of
        Inl e \<Rightarrow> Inl e
      | Inr c \<Rightarrow>
          vjp_accumulate ops grad_data_fwd grad_data_adj sim_bounds wvl_mat
            (vjp_permittivty + c) rest)"

definition store_vjp ::
  "'da xr_ops \<Rightarrow> 'inh JaxMedium \<Rightarrow> 'da FieldData \<Rightarrow> 'da FieldData \<Rightarrow> bound \<Rightarrow> real
     \<Rightarrow> py_error + 'inh JaxMedium" where
  "store_vjp ops self grad_data_fwd grad_data_adj sim_bounds wvl_mat =
     (case vjp_accumulate ops grad_data_fwd grad_data_adj sim_bounds wvl_mat 0
             [''Ex'', ''Ey'', ''Ez''] of
        Inl e \<Rightarrow> Inl e
      | Inr vjp_permittivty \<Rightarrow> Inr (self\<lparr>permittivity := vjp_permittivty\<rparr>))"

subsection \<open>\<^verbatim>\<open>JaxAnisotropicMedium\<close>\<close>

record ('inh, 'ainh) JaxAnisotropicMedium =
  xx :: "'inh JaxMedium"
  yy :: "'inh JaxMedium"
  zz :: "'inh JaxMedium"
  anisotropic_fields :: 'ainh

text \<open>
  Modelled from the spec: the property \<^verbatim>\<open>components\<close> is inherited from
  \<^verbatim>\<open>AnisotropicMedium\<close> in \<^verbatim>\<open>tidy3d/components/medium.py\<close>, which is not among the
  source files.  The spec describes the medium as three owned media xx, yy, zz; the
  property is the dict of the three under these names.
\<close>

definition components :: "('inh, 'ainh) JaxAnisotropicMedium \<Rightarrow> string \<rightharpoonup> 'inh JaxMedium" where
  "components self = [''xx'' \<mapsto> xx self, ''yy'' \<mapsto> yy self, ''zz'' \<mapsto> zz self]"

text \<open>
  \<^verbatim>\<open>JaxMedium(permittivity=vjp_ii)\<close>: a fresh medium; the inherited fields take their
  declared defaults, the parameter \<open>defaults\<close>.  The validators of the class are
  declared outside the source files and are taken to accept the value.
\<close>

definition JaxMedium_init :: "'inh \<Rightarrow> real \<Rightarrow> 'inh JaxMedium" where
  "JaxMedium_init defaults p = \<lparr>permittivity = p, medium_fields = defaults\<rparr>"

fun vjp_fields_loop ::
  "'da xr_ops \<Rightarrow> 'inh \<Rightarrow> ('inh, 'ainh) JaxAnisotropicMedium \<Rightarrow> 'da FieldData \<Rightarrow> 'da FieldData
     \<Rightarrow> bound \<Rightarrow> real \<Rightarrow> (string \<times> 'inh JaxMedium) list \<Rightarrow> string list
     \<Rightarrow> py_error + (string \<times> 'inh JaxMedium) list" where
  "vjp_fields_loop ops defaults self grad_data_fwd grad_data_adj sim_bounds wvl_mat vjp_fields [] =
     Inr vjp_fields"
| "vjp_fields_loop ops defaults self grad_data_fwd grad_data_adj sim_bounds wvl_mat vjp_fields
       (component # rest) =
     (let field_name = ''E'' @ component;
          component_name = component @ component
      in case components self component_name of
           None \<Rightarrow> Inl KeyError
         | Some jax_medium \<Rightarrow>
        (case field_contribution ops field_name grad_data_fwd grad_data_adj sim_bounds wvl_mat of
           Inl e \<Rightarrow> Inl e
         | Inr vjp_ii \<Rightarrow>
             vjp_fields_loop ops defaults self grad_data_fwd grad_data_adj sim_bounds wvl_mat
               (AList.update component_name (JaxMedium_init defaults vjp_ii) vjp_fields) rest))"

text \<open>\<^verbatim>\<open>self.copy(update=vjp_fields)\<close>: the fields named in the dict are replaced.\<close>

definition copy_update_anisotropic ::
  "('inh, 'ainh) JaxAnisotropicMedium \<Rightarrow> (string \<times> 'inh JaxMedium) list
     \<Rightarrow> ('inh, 'ainh) JaxAnisotropicMedium" where
  "copy_update_anisotropic self upd =
     (let m1 = (case map_of upd ''xx'' of None \<Rightarrow> self | Some v \<Rightarrow> self\<lparr>xx := v\<rparr>);
          m2 = (case map_of upd ''yy'' of None \<Rightarrow> m1 | Some v \<Rightarrow> m1\<lparr>yy := v\<rparr>)
      in (case map_of upd ''zz'' of None \<Rightarrow> m2 | Some v \<Rightarrow> m2\<lparr>zz := v\<rparr>))"

definition store_vjp_anisotropic ::
  "'da xr_ops \<Rightarrow> 'inh \<Rightarrow> ('inh, 'ainh) JaxAnisotropicMedium \<Rightarrow> 'da FieldData \<Rightarrow> 'da FieldData
     \<Rightarrow> bound \<Rightarrow> real \<Rightarrow> py_error + ('inh, 'ainh) JaxAnisotropicMedium" where
  "store_vjp_anisotropic ops defaults self grad_data_fwd grad_data_adj sim_bounds wvl_mat =
     (case vjp_fields_loop ops defaults self grad_data_fwd grad_data_adj sim_bounds wvl_mat []
             [''x'', ''y'', ''z''] of
        Inl e \<Rightarrow> Inl e
      | Inr vjp_fields \<Rightarrow> Inr (copy_update_anisotropic self vjp_fields))"

subsection \<open>\<^verbatim>\<open>JaxCustomMedium\<close>\<close>

text \<open>
  \<^verbatim>\<open>JaxDataArray\<close> holds a value array (\<open>values_nd\<close>) and a dict of coordinate vectors,
  in the order of the dict; \<^verbatim>\<open>JaxPermittivityDataset\<close> holds the three diagonal components.  Both
  classes are declared outside the source files; their constructors are taken to store
  the arguments as given.
\<close>

record JaxDataArray =
  values_nd :: ndarray
  coords :: "(string \<times> real list) list"

record JaxPermittivityDataset =
  eps_xx :: JaxDataArray
  eps_yy :: JaxDataArray
  eps_zz :: JaxDataArray

record 'cinh JaxCustomMedium =
  eps_dataset :: JaxPermittivityDataset
  custom_fields :: 'cinh

text \<open>
  Modelled from the spec: \<^verbatim>\<open>JaxPermittivityDataset.field_components\<close> and the
  constructor of the class are in \<^verbatim>\<open>data/dataset.py\<close>, which is not among the source
  files.  The spec describes the dataset as the scalar fields eps_xx, eps_yy, eps_zz;
  the property is the dict of the three under these names, and the constructor needs
  all three.
\<close>

definition eps_field_components :: "JaxPermittivityDataset \<Rightarrow> string \<rightharpoonup> JaxDataArray" where
  "eps_field_components ds = [''eps_xx'' \<mapsto> eps_xx ds, ''eps_yy'' \<mapsto> eps_yy ds, ''eps_zz'' \<mapsto> eps_zz ds]"

definition JaxPermittivityDataset_init ::
  "(string \<times> JaxDataArray) list \<Rightarrow> py_error + JaxPermittivityDataset" where
  "JaxPermittivityDataset_init kw =
     (case (map_of kw ''eps_xx'', map_of kw ''eps_yy'', map_of kw ''eps_zz'') of
        (Some a, Some b, Some c) \<Rightarrow> Inr \<lparr>eps_xx = a, eps_yy = b, eps_zz = c\<rparr>
      | _ \<Rightarrow> Inl (OtherError ''ValidationError''))"

text \<open>
  \<^verbatim>\<open>{dim_pt: coords[dim_pt] for dim_pt in "xyz" if len(coords[dim_pt]) > 1}\<close> and
  \<^verbatim>\<open>{dim_pt: 0 for dim_pt in "xyz" if len(coords[dim_pt]) <= 1}\<close>, with the
  \<^verbatim>\<open>KeyError\<close> of \<^verbatim>\<open>coords[dim_pt]\<close>.
\<close>

fun interp_coords_of ::
  "(string \<times> real list) list \<Rightarrow> string list \<Rightarrow> py_error + (string \<times> real list) list" where
  "interp_coords_of crds [] = Inr []"
| "interp_coords_of crds (dim_pt # rest) =
     (case map_of crds dim_pt of
        None \<Rightarrow> Inl KeyError
      | Some c \<Rightarrow>
        (case interp_coords_of crds rest of
           Inl e \<Rightarrow> Inl e
         | Inr r \<Rightarrow> Inr (if length c > 1 then (dim_pt, c) # r else r)))"

fun isel_coords_of ::
  "(string \<times> real list) list \<Rightarrow> string list \<Rightarrow> py_error + (string \<times> nat) list" where
  "isel_coords_of crds [] = Inr []"
| "isel_coords_of crds (dim_pt # rest) =
     (case map_of crds dim_pt of
        None \<Rightarrow> Inl KeyError
      | Some c \<Rightarrow>
        (case isel_coords_of crds rest of
           Inl e \<Rightarrow> Inl e
         | Inr r \<Rightarrow> Inr (if length c \<le> 1 then (dim_pt, 0) # r else r)))"

text \<open>The body of the loop in \<^verbatim>\<open>JaxCustomMedium.store_vjp\<close> for one component.\<close>

definition vjp_data_array ::
  "'da xr_ops \<Rightarrow> JaxDataArray \<Rightarrow> 'da FieldData \<Rightarrow> 'da FieldData \<Rightarrow> string
     \<Rightarrow> py_error + JaxDataArray" where
  "vjp_data_array ops orig_data_array grad_data_fwd grad_data_adj field_name =
     (let crds = coords orig_data_array in
      case interp_coords_of crds [''x'', ''y'', ''z''] of
        Inl e \<Rightarrow> Inl e
      | Inr interp_coords \<Rightarrow>
     (case isel_coords_of crds [''x'', ''y'', ''z''] of
        Inl e \<Rightarrow> Inl e
      | Inr isel_coords \<Rightarrow>
     (case field_components grad_data_fwd field_name of
        None \<Rightarrow> Inl KeyError
      | Some e_fwd \<Rightarrow>
     (case field_components grad_data_adj field_name of
        None \<Rightarrow> Inl KeyError
      | Some e_adj \<Rightarrow>
     (case xr_mul ops e_fwd e_adj of
        Inl e \<Rightarrow> Inl e
      | Inr prod_fa \<Rightarrow>
     (case xr_isel ops ((''f'', 0) # isel_coords) prod_fa of
        Inl e \<Rightarrow> Inl e
      | Inr e_sel \<Rightarrow>
     (case xr_interp ops interp_coords e_sel of
        Inl e \<Rightarrow> Inl e
      | Inr e_dotted \<Rightarrow>
     (let d_vol = 1;
          vjp_shape = map (\<lambda>(_, coord). length coord) crds
      in case reshape vjp_shape (nd_scale d_vol (xr_values ops (xr_real ops e_dotted))) of
           Inl e \<Rightarrow> Inl e
         | Inr vjp_values \<Rightarrow> Inr \<lparr>values_nd = vjp_values, coords = crds\<rparr>))))))))"

fun vjp_field_components_loop ::
  "'da xr_ops \<Rightarrow> 'cinh JaxCustomMedium \<Rightarrow> 'da FieldData \<Rightarrow> 'da FieldData
     \<Rightarrow> (string \<times> JaxDataArray) list \<Rightarrow> string list
     \<Rightarrow> py_error + (string \<times> JaxDataArray) list" where
  "vjp_field_components_loop ops self grad_data_fwd grad_data_adj vjp_field_components [] =
     Inr vjp_field_components"
| "vjp_field_components_loop ops self grad_data_fwd grad_data_adj vjp_field_components
       (dim_c # rest) =
     (let eps_field_name = ''eps_'' @ dim_c @ dim_c;
          field_name = ''E'' @ dim_c
      in case eps_field_components (eps_dataset self) eps_field_name of
           None \<Rightarrow> Inl KeyError
         | Some orig_data_array \<Rightarrow>
        (case vjp_data_array ops orig_data_array grad_data_fwd grad_data_adj field_name of
           Inl e \<Rightarrow> Inl e
         | Inr vjp_arr \<Rightarrow>
             vjp_field_components_loop ops self grad_data_fwd grad_data_adj
               (AList.update eps_field_name vjp_arr vjp_field_components) rest))"

text \<open>The arguments \<^verbatim>\<open>sim_bounds\<close> and \<^verbatim>\<open>wvl_mat\<close> are accepted and not read.\<close>

definition store_vjp_custom ::
  "'da xr_ops \<Rightarrow> 'cinh JaxCustomMedium \<Rightarrow> 'da FieldData \<Rightarrow> 'da FieldData \<Rightarrow> bound \<Rightarrow> real
     \<Rightarrow> py_error + 'cinh JaxCustomMedium" where
  "store_vjp_custom ops self grad_data_fwd grad_data_adj sim_bounds wvl_mat =
     (case vjp_field_components_loop ops self grad_data_fwd grad_data_adj []
             [''x'', ''y'', ''z''] of
        Inl e \<Rightarrow> Inl e
      | Inr vjp_field_components \<Rightarrow>
        (case JaxPermittivityDataset_init vjp_field_components of
           Inl e \<Rightarrow> Inl e
         | Inr vjp_eps_dataset \<Rightarrow> Inr (self\<lparr>eps_dataset := vjp_eps_dataset\<rparr>)))"

subsection \<open>Legacy export (\<^verbatim>\<open>tidy3d_core/convert.py\<close>)\<close>

text \<open>
  The emitted document is made of Python dicts (in insertion order), lists, tuples
  (rendered as lists), strings, numbers and \<^verbatim>\<open>None\<close>.
\<close>

datatype json =
    JFloat real
  | JInt int
  | JStr string
  | JBool bool
  | JNone
  | JList "json list"
  | JDict "(string \<times> json) list"

text \<open>\<^verbatim>\<open>d.update({...})\<close>\<close>

definition py_update :: "(string \<times> json) list \<Rightarrow> (string \<times> json) list \<Rightarrow> (string \<times> json) list" where
  "py_update d kvs = fold (\<lambda>(k, v) acc. AList.update k v acc) kvs d"

definition has_key :: "string \<Rightarrow> json \<Rightarrow> bool" where
  "has_key k j = (case j of JDict d \<Rightarrow> map_of d k \<noteq> None | _ \<Rightarrow> False)"

text \<open>Decimal rendering of a natural number inside an f-string.\<close>

fun str_nat :: "nat \<Rightarrow> string" where
  "str_nat n =
     (if n < 10 then [''0123456789'' ! n]
      else str_nat (n div 10) @ [''0123456789'' ! (n mod 10)])"

declare str_nat.simps [simp del]

text \<open>
  The object model of the simulation, as far as the export reads it.  In each datatype
  the last constructor stands for every class that the export has no branch for.
\<close>

datatype geometry =
    Box coordinate coordinate
  | Sphere coordinate real
  | Cylinder coordinate nat real real
  | PolySlab "(real \<times> real) list" "real \<times> real"
  | OtherGeometry

datatype medium = Medium real real | OtherMedium nat

record structure_t =
  geometry :: geometry
  medium :: medium

datatype source_time =
    GaussianPulse real real real real real
  | OtherSourceTime real

datatype polarization = Jx | Jy | Jz | Mx | My | Mz

datatype source =
    VolumeSource coordinate coordinate source_time polarization
  | OtherSource source_time

datatype monitor =
    FieldTimeMonitor coordinate coordinate "string list"
  | FluxTimeMonitor coordinate coordinate
  | FieldMonitor coordinate coordinate "string list" "real list"
  | FluxMonitor coordinate coordinate "real list"
  | OtherMonitor coordinate coordinate

record simulation =
  structures :: "structure_t list"
  sources :: "(string \<times> source) list"
  monitors :: "(string \<times> monitor) list"
  medium_map :: "(medium \<times> nat) list"
  run_time :: real

fun source_time_of :: "source \<Rightarrow> source_time" where
  "source_time_of (VolumeSource c s t p) = t"
| "source_time_of (OtherSource t) = t"

fun amplitude :: "source_time \<Rightarrow> real" where
  "amplitude (GaussianPulse freq0 fwidth offset phase a) = a"
| "amplitude (OtherSourceTime a) = a"

fun polarization_str :: "polarization \<Rightarrow> char \<times> char" where
  "polarization_str Jx = (CHR ''J'', CHR ''x'')"
| "polarization_str Jy = (CHR ''J'', CHR ''y'')"
| "polarization_str Jz = (CHR ''J'', CHR ''z'')"
| "polarization_str Mx = (CHR ''M'', CHR ''x'')"
| "polarization_str My = (CHR ''M'', CHR ''y'')"
| "polarization_str Mz = (CHR ''M'', CHR ''z'')"

fun monitor_center :: "monitor \<Rightarrow> coordinate" where
  "monitor_center (FieldTimeMonitor c s fs) = c"
| "monitor_center (FluxTimeMonitor c s) = c"
| "monitor_center (FieldMonitor c s fs freqs) = c"
| "monitor_center (FluxMonitor c s freqs) = c"
| "monitor_center (OtherMonitor c s) = c"

fun monitor_size :: "monitor \<Rightarrow> coordinate" where
  "monitor_size (FieldTimeMonitor c s fs) = s"
| "monitor_size (FluxTimeMonitor c s) = s"
| "monitor_size (FieldMonitor c s fs freqs) = s"
| "monitor_size (FluxMonitor c s freqs) = s"
| "monitor_size (OtherMonitor c s) = s"

definition json_tuple :: "coordinate \<Rightarrow> json" where
  "json_tuple c = (case c of (x, y, z) \<Rightarrow> JList [JFloat x, JFloat y, JFloat z])"

text \<open>
  The second loop of \<^verbatim>\<open>old_json_structures\<close>.  \<open>struct_geometry\<close> is the chain of
  \<^verbatim>\<open>isinstance\<close> branches: it returns the updated dict when a branch appends it and
  \<open>None\<close> when no branch is taken.
\<close>

definition struct_geometry ::
  "(string \<times> json) list \<Rightarrow> geometry \<Rightarrow> py_error + (string \<times> json) list option" where
  "struct_geometry struct geom =
     (case geom of
        Box cent sz \<Rightarrow>
          (case (cent, sz) of ((cx, cy, cz), (sx, sy, sz')) \<Rightarrow>
             Inr (Some (py_update struct
               [(''type'', JStr ''Box''),
                (''x_cent'', JFloat cx), (''y_cent'', JFloat cy), (''z_cent'', JFloat cz),
                (''x_span'', JFloat sx), (''y_span'', JFloat sy), (''z_span'', JFloat sz')])))
      | Sphere cent radius \<Rightarrow>
          (case cent of (cx, cy, cz) \<Rightarrow>
             Inr (Some (py_update struct
               [(''type'', JStr ''Sphere''),
                (''x_cent'', JFloat cx), (''y_cent'', JFloat cy), (''z_cent'', JFloat cz),
                (''radius'', JFloat radius)])))
      | Cylinder cent axis radius len \<Rightarrow>
          (case cent of (cx, cy, cz) \<Rightarrow>
             if axis < 3 then
               Inr (Some (py_update struct
                 [(''type'', JStr ''Cylinder''),
                  (''x_cent'', JFloat cx), (''y_cent'', JFloat cy), (''z_cent'', JFloat cz),
                  (''axis'', JStr ([''x'', ''y'', ''z''] ! axis)),
                  (''radius'', JFloat radius),
                  (''height'', JFloat len)]))
             else Inl IndexError)
      | PolySlab vertices slab_bounds \<Rightarrow>
          Inr (Some (py_update struct
            [(''type'', JStr ''PolySlab''),
             (''vertices'', JList (map (\<lambda>(a, b). JList [JFloat a, JFloat b]) vertices)),
             (''z_cent'', JFloat ((fst slab_bounds + snd slab_bounds) / 2)),
             (''z_size'', JFloat (snd slab_bounds - fst slab_bounds))]))
      | OtherGeometry \<Rightarrow> Inr None)"

fun struct_loop ::
  "(medium \<times> nat) list \<Rightarrow> nat \<Rightarrow> json list \<Rightarrow> structure_t list \<Rightarrow> py_error + json list" where
  "struct_loop mmap istruct struct_list [] = Inr struct_list"
| "struct_loop mmap istruct struct_list (structure # rest) =
     (case map_of mmap (medium structure) of
        None \<Rightarrow> Inl KeyError
      | Some imed \<Rightarrow>
        (let struct = [(''name'', JStr (''struct_'' @ str_nat istruct)),
                       (''mat_index'', JInt (int imed))]
         in case struct_geometry struct (geometry structure) of
              Inl e \<Rightarrow> Inl e
            | Inr None \<Rightarrow> struct_loop mmap (Suc istruct) struct_list rest
            | Inr (Some entry) \<Rightarrow>
                struct_loop mmap (Suc istruct) (struct_list @ [JDict entry]) rest))"

text \<open>The first loop of \<^verbatim>\<open>old_json_structures\<close>, over \<^verbatim>\<open>medium_map.items()\<close>.\<close>

definition medium_entry :: "medium \<times> nat \<Rightarrow> json" where
  "medium_entry mi =
     (case mi of (m, imed) \<Rightarrow>
        (let med = [(''name'', JStr (''mat_'' @ str_nat imed))] in
         case m of
           Medium perm cond \<Rightarrow>
             JDict (py_update med
               [(''type'', JStr ''Medium''),
                (''permittivity'', JList (replicate 3 (JFloat perm))),
                (''conductivity'', JList (replicate 3 (JFloat cond))),
                (''poles'', JList [])])
         | OtherMedium k \<Rightarrow> JDict med))"

definition old_json_structures :: "simulation \<Rightarrow> py_error + (json list \<times> json list)" where
  "old_json_structures sim =
     (let medium_list = map medium_entry (medium_map sim) in
      case struct_loop (medium_map sim) 0 [] (structures sim) of
        Inl e \<Rightarrow> Inl e
      | Inr struct_list \<Rightarrow> Inr (medium_list, struct_list))"

text \<open>
  \<^verbatim>\<open>old_json_sources\<close>.  The variables \<^verbatim>\<open>src_time\<close> and \<^verbatim>\<open>src\<close> are assigned
  inside \<^verbatim>\<open>if\<close> statements without \<^verbatim>\<open>else\<close> and live across iterations, so they are
  part of the loop state: \<open>None\<close> while unbound, and reading an unbound variable raises
  \<^verbatim>\<open>UnboundLocalError\<close>.  The \<^verbatim>\<open>append\<close> is outside the \<^verbatim>\<open>if\<close>.
\<close>

definition source_time_json :: "source_time \<Rightarrow> json option \<Rightarrow> json option" where
  "source_time_json t src_time =
     (case t of
        GaussianPulse freq0 fwidth offset phase a \<Rightarrow>
          Some (JDict
            [(''type'', JStr ''GaussianPulse''),
             (''frequency'', JFloat (freq0 * (1 / 10 ^ 12))),
             (''fwidth'', JFloat (fwidth * (1 / 10 ^ 12))),
             (''offset'', JFloat offset),
             (''phase'', JFloat phase)])
      | OtherSourceTime a \<Rightarrow> src_time)"

definition source_json ::
  "string \<Rightarrow> source \<Rightarrow> json option \<Rightarrow> json option \<Rightarrow> py_error + json option" where
  "source_json name source src_time src =
     (case source of
        VolumeSource center sz t pol \<Rightarrow>
          (let component =
                 (if fst (polarization_str pol) = CHR ''J'' then ''E'' else ''H'')
                   @ [snd (polarization_str pol)]
           in case src_time of
                None \<Rightarrow> Inl UnboundLocalError
              | Some st \<Rightarrow>
                  Inr (Some (JDict
                    [(''name'', JStr name),
                     (''type'', JStr ''VolumeSource''),
                     (''source_time'', st),
                     (''center'', json_tuple center),
                     (''size'', json_tuple sz),
                     (''component'', JStr component),
                     (''amplitude'', JFloat (amplitude t))])))
      | OtherSource t \<Rightarrow> Inr src)"

fun sources_loop ::
  "json list \<Rightarrow> json option \<Rightarrow> json option \<Rightarrow> (string \<times> source) list \<Rightarrow> py_error + json list" where
  "sources_loop src_list src_time src [] = Inr src_list"
| "sources_loop src_list src_time src ((name, source) # rest) =
     (let src_time' = source_time_json (source_time_of source) src_time in
      case source_json name source src_time' src of
        Inl e \<Rightarrow> Inl e
      | Inr None \<Rightarrow> Inl UnboundLocalError
      | Inr (Some s) \<Rightarrow> sources_loop (src_list @ [s]) src_time' (Some s) rest)"

definition old_json_sources :: "simulation \<Rightarrow> py_error + json list" where
  "old_json_sources sim = sources_loop [] None None (sources sim)"

text \<open>
  \<^verbatim>\<open>old_json_monitors\<close>.  \<^verbatim>\<open>np.any([field[0] == c for field in monitor.fields])\<close>
  builds the whole list first, so an empty field name raises \<^verbatim>\<open>IndexError\<close>.
\<close>

fun any_first_char :: "char \<Rightarrow> string list \<Rightarrow> py_error + bool" where
  "any_first_char c [] = Inr False"
| "any_first_char c (field # rest) =
     (case field of
        [] \<Rightarrow> Inl IndexError
      | ch # _ \<Rightarrow>
        (case any_first_char c rest of
           Inl e \<Rightarrow> Inl e
         | Inr b \<Rightarrow> Inr (ch = c \<or> b)))"

definition store_of :: "string list \<Rightarrow> py_error + json" where
  "store_of fs =
     (case any_first_char (CHR ''E'') fs of
        Inl e \<Rightarrow> Inl e
      | Inr has_e \<Rightarrow>
        (case any_first_char (CHR ''H'') fs of
           Inl e \<Rightarrow> Inl e
         | Inr has_h \<Rightarrow>
             Inr (JList ((if has_e then [JStr ''E''] else []) @ (if has_h then [JStr ''H''] else [])))))"

definition monitor_json :: "real \<Rightarrow> string \<Rightarrow> monitor \<Rightarrow> py_error + json" where
  "monitor_json sim_run_time name mon =
     (case (monitor_center mon, monitor_size mon) of ((cx, cy, cz), (sx, sy, sz)) \<Rightarrow>
        (let mnt = [(''name'', JStr name),
                    (''x_cent'', JFloat cx), (''y_cent'', JFloat cy), (''z_cent'', JFloat cz),
                    (''x_span'', JFloat sx), (''y_span'', JFloat sy), (''z_span'', JFloat sz)]
         in case mon of
              FieldTimeMonitor c s fs \<Rightarrow>
                (case store_of fs of
                   Inl e \<Rightarrow> Inl e
                 | Inr store \<Rightarrow>
                     Inr (JDict (py_update mnt
                       [(''type'', JStr ''TimeMonitor''),
                        (''t_start'', JInt 0),
                        (''t_stop'', JFloat sim_run_time),
                        (''t_step'', JNone),
                        (''store'', store)])))
            | FluxTimeMonitor c s \<Rightarrow>
                Inr (JDict (py_update mnt
                  [(''type'', JStr ''TimeMonitor''),
                   (''t_start'', JInt 0),
                   (''t_stop'', JFloat sim_run_time),
                   (''t_step'', JNone),
                   (''store'', JList [JStr ''flux''])]))
            | FieldMonitor c s fs freqs \<Rightarrow>
                (case store_of fs of
                   Inl e \<Rightarrow> Inl e
                 | Inr store \<Rightarrow>
                     Inr (JDict (py_update mnt
                       [(''type'', JStr ''FrequencyMonitor''),
                        (''frequency'', JList (map (\<lambda>f. JFloat (f * (1 / 10 ^ 12))) freqs)),
                        (''store'', store),
                        (''interpolate'', JBool True)])))
            | FluxMonitor c s freqs \<Rightarrow>
                Inr (JDict (py_update mnt
                  [(''type'', JStr ''FrequencyMonitor''),
                   (''frequency'', JList (map (\<lambda>f. JFloat (f * (1 / 10 ^ 12))) freqs)),
                   (''store'', JList [JStr ''flux'']),
                   (''interpolate'', JBool True)]))
            | OtherMonitor c s \<Rightarrow> Inr (JDict mnt)))"

fun monitors_loop ::
  "real \<Rightarrow> json list \<Rightarrow> (string \<times> monitor) list \<Rightarrow> py_error + json list" where
  "monitors_loop sim_run_time mnt_list [] = Inr mnt_list"
| "monitors_loop sim_run_time mnt_list ((name, mon) # rest) =
     (case monitor_json sim_run_time name mon of
        Inl e \<Rightarrow> Inl e
      | Inr mnt \<Rightarrow> monitors_loop sim_run_time (mnt_list @ [mnt]) rest)"

definition old_json_monitors :: "simulation \<Rightarrow> py_error + json list" where
  "old_json_monitors sim = monitors_loop (run_time sim) [] (monitors sim)"

text \<open>The kinds that the export has a branch for.\<close>

fun supported_geometry :: "geometry \<Rightarrow> bool" where
  "supported_geometry OtherGeometry = False"
| "supported_geometry g = True"

fun supported_source :: "source \<Rightarrow> bool" where
  "supported_source (OtherSource t) = False"
| "supported_source s = True"

fun supported_monitor :: "monitor \<Rightarrow> bool" where
  "supported_monitor (OtherMonitor c s) = False"
| "supported_monitor m = True"


subsection \<open>Tree flattening and unflattening\<close>

text \<open>\<^verbatim>\<open>JaxMediumType = Union[JaxMedium, JaxAnisotropicMedium, JaxCustomMedium]\<close>\<close>

datatype ('inh, 'ainh, 'cinh) JaxMediumType =
    IsMedium "'inh JaxMedium"
  | IsAnisotropic "('inh, 'ainh) JaxAnisotropicMedium"
  | IsCustom "'cinh JaxCustomMedium"

text \<open>
  Modelled from the spec: the functions that \<^verbatim>\<open>@register_pytree_node_class\<close> registers
  are \<^verbatim>\<open>tree_flatten\<close> and \<^verbatim>\<open>tree_unflatten\<close> of \<^verbatim>\<open>JaxObject\<close> in
  \<^verbatim>\<open>plugins/adjoint/components/base.py\<close>, which is not among the source files.  The
  spec has every medium variant decompose into a flat ordered sequence of raw numeric
  leaves and an auxiliary, non-differentiable structure (shape, coords, labels) from
  which the inverse operation rebuilds the object.  Here the leaves are the numbers of
  the fields that the classes declare with \<^verbatim>\<open>jax_field=True\<close> (the permittivity; the
  permittivities of xx, yy, zz; the entries of the value arrays of eps_xx, eps_yy,
  eps_zz), in the order of declaration, and everything else is auxiliary.  Unflattening
  raises \<^verbatim>\<open>ValueError\<close> when the number of leaves does not fit the auxiliary structure.
\<close>

type_synonym array_aux = "nat list \<times> (string \<times> real list) list"

datatype ('inh, 'ainh, 'cinh) aux_data =
    AuxMedium 'inh
  | AuxAnisotropic 'inh 'inh 'inh 'ainh
  | AuxCustom array_aux array_aux array_aux 'cinh

definition flatten_array :: "JaxDataArray \<Rightarrow> real list \<times> array_aux" where
  "flatten_array a = (nd_data (values_nd a), (nd_shape (values_nd a), coords a))"

definition unflatten_array :: "array_aux \<Rightarrow> real list \<Rightarrow> JaxDataArray" where
  "unflatten_array aux leaves =
     \<lparr>values_nd = \<lparr>nd_shape = fst aux, nd_data = leaves\<rparr>, coords = snd aux\<rparr>"

fun tree_flatten ::
  "('inh, 'ainh, 'cinh) JaxMediumType \<Rightarrow> real list \<times> ('inh, 'ainh, 'cinh) aux_data" where
  "tree_flatten (IsMedium m) = ([permittivity m], AuxMedium (medium_fields m))"
| "tree_flatten (IsAnisotropic m) =
     ([permittivity (xx m), permittivity (yy m), permittivity (zz m)],
      AuxAnisotropic (medium_fields (xx m)) (medium_fields (yy m)) (medium_fields (zz m))
        (anisotropic_fields m))"
| "tree_flatten (IsCustom m) =
     (case (flatten_array (eps_xx (eps_dataset m)),
            flatten_array (eps_yy (eps_dataset m)),
            flatten_array (eps_zz (eps_dataset m))) of
        ((lx, ax), (ly, ay), (lz, az)) \<Rightarrow>
          (lx @ ly @ lz, AuxCustom ax ay az (custom_fields m)))"

fun tree_unflatten ::
  "('inh, 'ainh, 'cinh) aux_data \<Rightarrow> real list \<Rightarrow> py_error + ('inh, 'ainh, 'cinh) JaxMediumType" where
  "tree_unflatten (AuxMedium inh) leaves =
     (case leaves of
        [p] \<Rightarrow> Inr (IsMedium \<lparr>permittivity = p, medium_fields = inh\<rparr>)
      | _ \<Rightarrow> Inl ValueError)"
| "tree_unflatten (AuxAnisotropic ix iy iz a) leaves =
     (case leaves of
        [px, py, pz] \<Rightarrow>
          Inr (IsAnisotropic
                \<lparr>xx = \<lparr>permittivity = px, medium_fields = ix\<rparr>,
                 yy = \<lparr>permittivity = py, medium_fields = iy\<rparr>,
                 zz = \<lparr>permittivity = pz, medium_fields = iz\<rparr>,
                 anisotropic_fields = a\<rparr>)
      | _ \<Rightarrow> Inl ValueError)"
| "tree_unflatten (AuxCustom ax ay az c) leaves =
     (let nx = prod_list (fst ax); ny = prod_list (fst ay); nz = prod_list (fst az) in
      if length leaves = nx + ny + nz then
        Inr (IsCustom
              \<lparr>eps_dataset =
                 \<lparr>eps_xx = unflatten_array ax (take nx leaves),
                  eps_yy = unflatten_array ay (take ny (drop nx leaves)),
                  eps_zz = unflatten_array az (drop (nx + ny) leaves)\<rparr>,
               custom_fields = c\<rparr>)
      else Inl ValueError)"

text \<open>A valid medium: every value array has as many entries as its shape says.\<close>

definition valid_array :: "JaxDataArray \<Rightarrow> bool" where
  "valid_array a = (length (nd_data (values_nd a)) = prod_list (nd_shape (values_nd a)))"

fun valid_medium :: "('inh, 'ainh, 'cinh) JaxMediumType \<Rightarrow> bool" where
  "valid_medium (IsCustom m) =
     (valid_array (eps_xx (eps_dataset m)) \<and> valid_array (eps_yy (eps_dataset m))
        \<and> valid_array (eps_zz (eps_dataset m)))"
| "valid_medium (IsMedium m) = True"
| "valid_medium (IsAnisotropic m) = True"

subsection \<open>A stand-in array library for concrete evaluation\<close>

text \<open>
  The theorems below hold for every array type and every behaviour of the library
  operations.  To evaluate them on concrete inputs, \<open>sample_ops\<close> is one instance:
  a field array is an array of real samples that lie on the target grid at a single
  frequency already, so that the product is entrywise (arrays of different shapes are
  refused) and taking the real part, selecting and interpolating return their argument.
\<close>

definition sample_ops :: "ndarray xr_ops" where
  "sample_ops =
     \<lparr>xr_mul = (\<lambda>a b. if nd_shape a = nd_shape b
                      then Inr (a\<lparr>nd_data := map2 (\<lambda>u v. u * v) (nd_data a) (nd_data b)\<rparr>)
                      else Inl ValueError),
      xr_real = (\<lambda>a. a),
      xr_isel = (\<lambda>kw a. Inr a),
      xr_interp = (\<lambda>kw a. Inr a),
      xr_values = (\<lambda>a. a)\<rparr>"

text \<open>
  Sample field data on a square monitor in the plane \<open>z = 0\<close>: each of Ex, Ey, Ez is a
  one-dimensional array of the given samples.
\<close>

definition sample_field :: "real list \<Rightarrow> ndarray" where
  "sample_field vs = \<lparr>nd_shape = [length vs], nd_data = vs\<rparr>"

definition sample_data :: "real list \<Rightarrow> real list \<Rightarrow> real list \<Rightarrow> ndarray FieldData" where
  "sample_data ex ey ez =
     \<lparr>monitor_bounds = ((0, 0, 0), (1, 1, 0)),
      field_components =
        [''Ex'' \<mapsto> sample_field ex, ''Ey'' \<mapsto> sample_field ey, ''Ez'' \<mapsto> sample_field ez]\<rparr>"

text \<open>
  A sample custom medium: each diagonal component lives on two points along x and is
  degenerate (one point) along y, z and f.
\<close>

definition sample_array :: JaxDataArray where
  "sample_array =
     \<lparr>values_nd = \<lparr>nd_shape = [2, 1, 1, 1], nd_data = [2, 2]\<rparr>,
      coords = [(''x'', [0, 1]), (''y'', [0]), (''z'', [0]), (''f'', [1])]\<rparr>"

definition sample_custom_medium :: "unit JaxCustomMedium" where
  "sample_custom_medium =
     \<lparr>eps_dataset = \<lparr>eps_xx = sample_array, eps_yy = sample_array, eps_zz = sample_array\<rparr>,
      custom_fields = ()\<rparr>"

section \<open>Properties of the volume discretisation\<close>

lemma py_int_nonneg: "0 \<le> x \<Longrightarrow> py_int x = \<lfloor>x\<rfloor>"
  by (simp add: py_int_def)

lemma linspace_many:
  "1 < n \<Longrightarrow> linspace a b (int n) =
     Inr ((map (\<lambda>v. v + a) (map (\<lambda>v. v * ((b - a) / real (n - 1))) (map real [0..<n])))[n - 1 := b])"
  by (simp add: linspace_def Let_def)

lemma cell_centres_last:
  fixes n :: nat and min_edge max_edge w :: real
  assumes "0 < n" and w_def: "w = (max_edge - min_edge) / real n"
  shows "min_edge + w / 2 + real (n - 1) * w = max_edge - w / 2"
proof -
  have nw: "real n * w = max_edge - min_edge" using assms by simp
  have "real (n - 1) * w = real n * w - w" using assms(1) by (simp add: of_nat_diff algebra_simps)
  then show ?thesis using nw by simp
qed

lemma linspace_cell_centres:
  fixes n :: nat and min_edge max_edge w :: real
  assumes "0 < n" and w_def: "w = (max_edge - min_edge) / real n"
  shows "linspace (min_edge + w / 2) (max_edge - w / 2) (int n) = Inr (cell_centres min_edge w n)"
proof (cases "n = 1")
  case True
  then show ?thesis by (simp add: linspace_def Let_def cell_centres_def)
next
  case False
  with assms have n2: "1 < n" by simp
  have lst: "max_edge - w / 2 = min_edge + w / 2 + real (n - 1) * w"
    using cell_centres_last [OF assms] by simp
  have step: "(max_edge - w / 2 - (min_edge + w / 2)) / real (n - 1) = w"
  proof -
    have "max_edge - w / 2 - (min_edge + w / 2) = real (n - 1) * w" using lst by simp
    then show ?thesis using n2 by simp
  qed
  have "(map (\<lambda>v. v + (min_edge + w / 2)) (map (\<lambda>v. v * w) (map real [0..<n])))[n - 1 := max_edge - w / 2]
        = map (\<lambda>i. min_edge + w / 2 + real i * w) [0..<n]"
    by (rule nth_equalityI) (auto simp: nth_list_update lst algebra_simps)
  then show ?thesis unfolding linspace_many [OF n2] step cell_centres_def by simp
qed

lemma volume_step_skip: "\<not> contributes ax \<Longrightarrow> volume_step w st ax = Inr st"
  by (cases st; cases ax) (simp add: contributes_def volume_step_def)

lemma volume_step_contributes:
  assumes "contributes (name, mn, mx)"
  shows "volume_step w (vc, dv) (name, mn, mx) =
     (if w = 0 then Inl ZeroDivisionError
      else if axis_cells w (name, mn, mx) = 0 then Inl ZeroDivisionError
      else if axis_cells w (name, mn, mx) < 0 then Inl ValueError
      else Inr (AList.update name
                  (cell_centres mn (axis_width w (name, mn, mx)) (nat (axis_cells w (name, mn, mx)))) vc,
                dv * axis_width w (name, mn, mx)))"
proof -
  let ?n = "axis_cells w (name, mn, mx)"
  have neg: "?n < 0 \<Longrightarrow> linspace a b ?n = Inl ValueError" for a b
    by (simp add: linspace_def)
  have pos: "linspace (mn + axis_width w (name, mn, mx) / 2) (mx - axis_width w (name, mn, mx) / 2) ?n
         = Inr (cell_centres mn (axis_width w (name, mn, mx)) (nat ?n))" if "0 < ?n"
  proof -
    have "linspace (mn + axis_width w (name, mn, mx) / 2) (mx - axis_width w (name, mn, mx) / 2) (int (nat ?n))
         = Inr (cell_centres mn (axis_width w (name, mn, mx)) (nat ?n))"
      by (rule linspace_cell_centres) (use that in \<open>simp_all add: axis_width_def\<close>)
    then show ?thesis using that by simp
  qed
  have nd: "w \<noteq> 0 \<Longrightarrow> num_cells_dim (mx - mn) w = Inr ?n"
    by (simp add: num_cells_dim_def axis_cells_def)
  have wd: "(mx - mn) / real_of_int ?n = axis_width w (name, mn, mx)"
    by (simp add: axis_width_def)
  show ?thesis
  proof (cases "w = 0")
    case True
    then show ?thesis using assms by (simp add: volume_step_def contributes_def num_cells_dim_def)
  next
    case False
    show ?thesis
    proof (cases "?n = 0")
      case True
      then show ?thesis using assms False by (simp add: volume_step_def contributes_def nd)
    next
      case n0: False
      show ?thesis
      proof (cases "?n < 0")
        case True
        then show ?thesis using assms False n0
          by (simp add: volume_step_def contributes_def nd Let_def neg)
      next
        case nn: False
        then have "0 < ?n" using n0 by simp
        then show ?thesis using assms False n0 nn pos
          by (simp add: volume_step_def contributes_def nd Let_def wd)
      qed
    qed
  qed
qed

lemma volume_loop_filter:
  "volume_loop w st (filter contributes axes) = volume_loop w st axes"
  by (induction axes arbitrary: st) (auto simp: volume_step_skip split: sum.splits)

lemma axis_cells_pos:
  assumes "0 < w" and "mn < mx"
  shows "axis_cells w (name, mn, mx) = \<lfloor>(mx - mn) * PTS_PER_WVL_INTEGRATION / w\<rfloor> + 1"
    and "0 < axis_cells w (name, mn, mx)"
proof -
  have nn: "0 \<le> (mx - mn) * PTS_PER_WVL_INTEGRATION / w"
    using assms by (simp add: PTS_PER_WVL_INTEGRATION_def)
  then show "axis_cells w (name, mn, mx) = \<lfloor>(mx - mn) * PTS_PER_WVL_INTEGRATION / w\<rfloor> + 1"
    by (simp add: axis_cells_def py_int_def)
  moreover have "0 \<le> \<lfloor>(mx - mn) * PTS_PER_WVL_INTEGRATION / w\<rfloor>" using nn by simp
  ultimately show "0 < axis_cells w (name, mn, mx)" by simp
qed

lemma volume_loop_total:
  assumes "0 < w" and "\<forall>ax \<in> set axes. fst (snd ax) \<le> snd (snd ax)"
  shows "\<exists>r. volume_loop w st axes = Inr r"
  using assms(2)
proof (induction axes arbitrary: st)
  case Nil
  then show ?case by simp
next
  case (Cons ax axes)
  obtain name mn mx where ax: "ax = (name, mn, mx)" by (cases ax) auto
  obtain vc dv where st: "st = (vc, dv)" by (cases st) auto
  have le: "mn \<le> mx" using Cons.prems ax by simp
  have "\<exists>st'. volume_step w st ax = Inr st'"
  proof (cases "contributes ax")
    case True
    then have "mn < mx" using le ax by (simp add: contributes_def)
    then have "0 < axis_cells w (name, mn, mx)" using assms(1) by (rule axis_cells_pos(2) [rotated])
    then show ?thesis using True assms(1) unfolding ax st
      by (simp add: volume_step_contributes)
  next
    case False
    then show ?thesis by (simp add: volume_step_skip)
  qed
  then obtain st' where "volume_step w st ax = Inr st'" by blast
  moreover have "\<exists>r. volume_loop w st' axes = Inr r" using Cons by simp
  ultimately show ?case by simp
qed

lemma volume_loop_Inr:
  assumes "volume_loop w (vc, dv) axes = Inr (vc', dv')" and "distinct (map fst axes)"
  shows "dv' = dv * prod_list (map (axis_width w) (filter contributes axes))
       \<and> (\<forall>ax \<in> set axes. contributes ax \<longrightarrow>
             w \<noteq> 0 \<and> 0 < axis_cells w ax \<and>
             map_of vc' (fst ax) = Some (cell_centres (fst (snd ax)) (axis_width w ax) (nat (axis_cells w ax))))
       \<and> (\<forall>k. k \<notin> fst ` set (filter contributes axes) \<longrightarrow> map_of vc' k = map_of vc k)"
  using assms
proof (induction axes arbitrary: vc dv)
  case Nil
  then show ?case by simp
next
  case (Cons ax axes)
  obtain name mn mx where ax: "ax = (name, mn, mx)" by (cases ax) auto
  from Cons.prems(1) obtain vc1 dv1 where
    step: "volume_step w (vc, dv) ax = Inr (vc1, dv1)" and
    rest: "volume_loop w (vc1, dv1) axes = Inr (vc', dv')"
    by (auto split: sum.splits)
  have dist: "distinct (map fst axes)" and fresh: "name \<notin> fst ` set axes"
    using Cons.prems(2) ax by auto
  note IH = Cons.IH [OF rest dist]
  show ?case
  proof (cases "contributes ax")
    case False
    then have "vc1 = vc" "dv1 = dv" using step by (simp_all add: volume_step_skip)
    then show ?thesis using IH False by simp
  next
    case True
    from True step have w0: "w \<noteq> 0" and n0: "0 < axis_cells w ax"
      and vc1: "vc1 = AList.update name (cell_centres mn (axis_width w ax) (nat (axis_cells w ax))) vc"
      and dv1: "dv1 = dv * axis_width w ax"
      unfolding ax by (auto simp: volume_step_contributes split: if_splits)
    have nf: "name \<notin> fst ` set (filter contributes axes)" using fresh by auto
    have here: "map_of vc' name = Some (cell_centres mn (axis_width w ax) (nat (axis_cells w ax)))"
      using IH nf by (simp add: vc1 update_conv')
    have others: "map_of vc' k = map_of vc k"
      if "k \<notin> fst ` set (filter contributes (ax # axes))" for k
    proof -
      have "k \<noteq> name" and "k \<notin> fst ` set (filter contributes axes)"
        using that True ax by auto
      then show ?thesis using IH by (simp add: vc1 update_conv')
    qed
    have A: "dv' = dv * prod_list (map (axis_width w) (filter contributes (ax # axes)))"
      using IH True by (simp add: dv1 mult.assoc)
    have B: "w \<noteq> 0 \<and> 0 < axis_cells w a \<and>
          map_of vc' (fst a) = Some (cell_centres (fst (snd a)) (axis_width w a) (nat (axis_cells w a)))"
      if "a \<in> set (ax # axes)" and "contributes a" for a
    proof -
      from that(1) consider "a = ax" | "a \<in> set axes" by auto
      then show ?thesis
      proof cases
        case 1
        then show ?thesis using w0 n0 here ax by simp
      next
        case 2
        then show ?thesis using IH that(2) by blast
      qed
    qed
    show ?thesis using A B others by blast
  qed
qed

lemma zip_xyz_distinct: "distinct (map fst (zip_xyz b))"
  by (cases b) (auto simp: zip_xyz_def)

lemma cell_centres_length: "length (cell_centres m w n) = n"
  by (simp add: cell_centres_def)

lemma cell_centres_hd: "0 < n \<Longrightarrow> hd (cell_centres m w n) = m + w / 2"
  by (simp add: cell_centres_def hd_map upt_conv_Cons)

lemma cell_centres_last_eq:
  assumes "0 < n" and "w = (mx - m) / real n"
  shows "last (cell_centres m w n) = mx - w / 2"
proof -
  have ne: "[0..<n] \<noteq> []" using assms(1) by simp
  have "last (cell_centres m w n) = m + w / 2 + real (n - 1) * w"
    using assms(1) ne by (simp add: cell_centres_def last_map last_upt)
  then show ?thesis using cell_centres_last [OF assms] by simp
qed

lemma get_volume_disc_Inr:
  assumes "get_volume_disc mnt sim w = Inr (vc, dv)"
  shows "dv = prod_list (map (axis_width w) (filter contributes (zip_xyz (bounds_intersection mnt sim))))"
    and "ax \<in> set (zip_xyz (bounds_intersection mnt sim)) \<Longrightarrow> contributes ax \<Longrightarrow>
           w \<noteq> 0 \<and> 0 < axis_cells w ax \<and>
           map_of vc (fst ax) = Some (cell_centres (fst (snd ax)) (axis_width w ax) (nat (axis_cells w ax)))"
    and "k \<notin> fst ` set (filter contributes (zip_xyz (bounds_intersection mnt sim))) \<Longrightarrow> map_of vc k = None"
proof -
  note L = volume_loop_Inr [OF assms [unfolded get_volume_disc_def] zip_xyz_distinct]
  show "dv = prod_list (map (axis_width w) (filter contributes (zip_xyz (bounds_intersection mnt sim))))"
    using L by simp
  show "ax \<in> set (zip_xyz (bounds_intersection mnt sim)) \<Longrightarrow> contributes ax \<Longrightarrow>
           w \<noteq> 0 \<and> 0 < axis_cells w ax \<and>
           map_of vc (fst ax) = Some (cell_centres (fst (snd ax)) (axis_width w ax) (nat (axis_cells w ax)))"
    using L by blast
  show "k \<notin> fst ` set (filter contributes (zip_xyz (bounds_intersection mnt sim))) \<Longrightarrow> map_of vc k = None"
    using L by simp
qed

lemma bounds_intersection_axes:
  "zip_xyz (bounds_intersection ((x1, y1, z1), (X1, Y1, Z1)) ((x2, y2, z2), (X2, Y2, Z2)))
     = [(''x'', max x1 x2, max (max x1 x2) (min X1 X2)),
        (''y'', max y1 y2, max (max y1 y2) (min Y1 Y2)),
        (''z'', max z1 z2, max (max z1 z2) (min Z1 Z2))]"
  by (simp add: zip_xyz_def bounds_intersection_def)

lemma bounds_intersection_ordered:
  assumes "(coord_name, min_edge, max_edge) \<in> set (zip_xyz (bounds_intersection mnt_bounds sim_bounds))"
  shows "min_edge \<le> max_edge"
proof -
  obtain x1 y1 z1 X1 Y1 Z1 where m: "mnt_bounds = ((x1, y1, z1), (X1, Y1, Z1))"
    by (metis prod.collapse)
  obtain x2 y2 z2 X2 Y2 Z2 where s: "sim_bounds = ((x2, y2, z2), (X2, Y2, Z2))"
    by (metis prod.collapse)
  show ?thesis using assms unfolding m s bounds_intersection_axes by auto
qed

lemma get_volume_disc_total:
  assumes "0 < wvl_mat"
  shows "\<exists>r. get_volume_disc mnt_bounds sim_bounds wvl_mat = Inr r"
  unfolding get_volume_disc_def
proof (rule volume_loop_total [OF assms])
  show "\<forall>ax \<in> set (zip_xyz (bounds_intersection mnt_bounds sim_bounds)). fst (snd ax) \<le> snd (snd ax)"
  proof
    fix ax assume "ax \<in> set (zip_xyz (bounds_intersection mnt_bounds sim_bounds))"
    then have "(fst ax, fst (snd ax), snd (snd ax)) \<in> set (zip_xyz (bounds_intersection mnt_bounds sim_bounds))"
      by simp
    then show "fst (snd ax) \<le> snd (snd ax)" by (rule bounds_intersection_ordered)
  qed
qed

lemma cell_count_positive_extent:
  assumes "0 < wvl_mat"
    and "(coord_name, min_edge, max_edge) \<in> set (zip_xyz (bounds_intersection mnt_bounds sim_bounds))"
    and "min_edge < max_edge"
  shows "num_cells_dim (max_edge - min_edge) wvl_mat
           = Inr (\<lfloor>(max_edge - min_edge) * PTS_PER_WVL_INTEGRATION / wvl_mat\<rfloor> + 1)
       \<and> (\<forall>vc d_vol. get_volume_disc mnt_bounds sim_bounds wvl_mat = Inr (vc, d_vol) \<longrightarrow>
            (\<exists>cs. map_of vc coord_name = Some cs \<and>
                  int (length cs) = \<lfloor>(max_edge - min_edge) * PTS_PER_WVL_INTEGRATION / wvl_mat\<rfloor> + 1))"
proof (intro conjI allI impI)
  let ?ax = "(coord_name, min_edge, max_edge)"
  note cells = axis_cells_pos [OF assms(1) assms(3), of coord_name]
  show "num_cells_dim (max_edge - min_edge) wvl_mat
           = Inr (\<lfloor>(max_edge - min_edge) * PTS_PER_WVL_INTEGRATION / wvl_mat\<rfloor> + 1)"
    using assms(1) cells(1) by (simp add: num_cells_dim_def axis_cells_def)
  fix vc d_vol
  assume r: "get_volume_disc mnt_bounds sim_bounds wvl_mat = Inr (vc, d_vol)"
  have c: "contributes ?ax" using assms(3) by (simp add: contributes_def)
  from get_volume_disc_Inr(2) [OF r assms(2) c]
  have "map_of vc coord_name = Some (cell_centres min_edge (axis_width wvl_mat ?ax) (nat (axis_cells wvl_mat ?ax)))"
    by simp
  moreover have "int (length (cell_centres min_edge (axis_width wvl_mat ?ax) (nat (axis_cells wvl_mat ?ax))))
      = \<lfloor>(max_edge - min_edge) * PTS_PER_WVL_INTEGRATION / wvl_mat\<rfloor> + 1"
    using cells by (simp add: cell_centres_length)
  ultimately show "\<exists>cs. map_of vc coord_name = Some cs \<and>
                  int (length cs) = \<lfloor>(max_edge - min_edge) * PTS_PER_WVL_INTEGRATION / wvl_mat\<rfloor> + 1"
    by blast
qed

text \<open>
  Claim C1.  On every axis of the intersection of the monitor bounds and the
  simulation bounds whose extent \<open>E = max_edge - min_edge\<close> is not zero, and for every
  wavelength \<open>W > 0\<close>, the number of cells is exactly \<open>\<lfloor>E * 20 / W\<rfloor> + 1\<close>; the method
  returns, and the axis has that many sample coordinates.
\<close>

theorem cell_count_formula:
  assumes "0 < wvl_mat"
    and "(coord_name, min_edge, max_edge) \<in> set (zip_xyz (bounds_intersection mnt_bounds sim_bounds))"
    and "max_edge - min_edge \<noteq> 0"
  shows "num_cells_dim (max_edge - min_edge) wvl_mat
           = Inr (\<lfloor>(max_edge - min_edge) * PTS_PER_WVL_INTEGRATION / wvl_mat\<rfloor> + 1)
       \<and> (\<exists>vc d_vol cs. get_volume_disc mnt_bounds sim_bounds wvl_mat = Inr (vc, d_vol)
             \<and> map_of vc coord_name = Some cs
             \<and> int (length cs) = \<lfloor>(max_edge - min_edge) * PTS_PER_WVL_INTEGRATION / wvl_mat\<rfloor> + 1)"
proof -
  have "min_edge \<le> max_edge" using assms(2) by (rule bounds_intersection_ordered)
  with assms(3) have lt: "min_edge < max_edge" by simp
  note P = cell_count_positive_extent [OF assms(1) assms(2) lt]
  obtain vc d_vol where r: "get_volume_disc mnt_bounds sim_bounds wvl_mat = Inr (vc, d_vol)"
    using get_volume_disc_total [OF assms(1)] by (metis surj_pair)
  from P [THEN conjunct2, rule_format, OF r] obtain cs where
    "map_of vc coord_name = Some cs"
    "int (length cs) = \<lfloor>(max_edge - min_edge) * PTS_PER_WVL_INTEGRATION / wvl_mat\<rfloor> + 1"
    by blast
  with r P [THEN conjunct1] show ?thesis by blast
qed

text \<open>A square monitor in the plane \<open>z = 0\<close>, wavelength 10: three cells on x and on y.\<close>

lemma gvd_square:
  "get_volume_disc ((0, 0, 0), (1, 1, 0)) ((0, 0, 0), (1, 1, 0)) 10
     = Inr ([(''x'', [1 / 6, 1 / 2, 5 / 6]), (''y'', [1 / 6, 1 / 2, 5 / 6])], 1 / 9)"
  by code_simp

theorem cell_count_formula_witness:
  "(0 :: real) < 10
   \<and> (''x'', 0, 1) \<in> set (zip_xyz (bounds_intersection ((0, 0, 0), (1, 1, 0)) ((0, 0, 0), (1, 1, 0))))
   \<and> (1 :: real) - 0 \<noteq> 0
   \<and> num_cells_dim (1 - 0) 10 = Inr 3
   \<and> \<lfloor>(1 - 0) * PTS_PER_WVL_INTEGRATION / 10\<rfloor> + 1 = (3 :: int)
   \<and> (\<exists>vc d_vol cs.
         get_volume_disc ((0, 0, 0), (1, 1, 0)) ((0, 0, 0), (1, 1, 0)) 10 = Inr (vc, d_vol)
       \<and> map_of vc ''x'' = Some cs \<and> int (length cs) = 3)"
proof -
  have z: "(0 :: real) < 10" by simp
  have m: "(''x'', 0, 1) \<in> set (zip_xyz (bounds_intersection ((0, 0, 0), (1, 1, 0)) ((0, 0, 0), (1, 1, 0))))"
    by (simp add: bounds_intersection_axes)
  have nz: "(1 :: real) - 0 \<noteq> 0" by simp
  have fl: "\<lfloor>(1 - 0) * PTS_PER_WVL_INTEGRATION / 10\<rfloor> + 1 = (3 :: int)"
    by (simp add: PTS_PER_WVL_INTEGRATION_def)
  from cell_count_formula [OF z m nz] show ?thesis unfolding fl using z m nz by blast
qed


lemma excluded_axis_no_key:
  assumes "ax \<in> set (zip_xyz (bounds_intersection mnt_bounds sim_bounds))"
    and "\<not> contributes ax"
    and "get_volume_disc mnt_bounds sim_bounds wvl_mat = Inr (vc, d_vol)"
  shows "map_of vc (fst ax) = None"
proof -
  let ?axes = "zip_xyz (bounds_intersection mnt_bounds sim_bounds)"
  have "fst ax \<notin> fst ` set (filter contributes ?axes)"
  proof
    assume "fst ax \<in> fst ` set (filter contributes ?axes)"
    then obtain b where b: "b \<in> set ?axes" "contributes b" "fst b = fst ax" by auto
    have "inj_on fst (set ?axes)" using zip_xyz_distinct [of "bounds_intersection mnt_bounds sim_bounds"]
      by (simp add: distinct_map)
    then have "b = ax" using b(1,3) assms(1) by (auto dest: inj_onD)
    then show False using b(2) assms(2) by simp
  qed
  then show ?thesis by (rule get_volume_disc_Inr(3) [OF assms(3)])
qed

text \<open>
  Claim C2.  An axis of the intersection whose extent is zero is skipped: the loop
  leaves its state as it is and raises nothing there, so the method returns what the
  loop returns on the contributing axes alone; the returned dict has a key for the
  contributing axes only and the differential volume is the product of their cell
  widths.  An axis on which the monitor bounds and the simulation bounds do not overlap
  (or only touch) is such an axis of zero extent.  For a positive wavelength the
  method returns, whatever the two bounds are.
\<close>

theorem zero_extent_axes_excluded:
  "get_volume_disc mnt_bounds sim_bounds wvl_mat
     = volume_loop wvl_mat ([], 1) (filter contributes (zip_xyz (bounds_intersection mnt_bounds sim_bounds)))
   \<and> (\<forall>ax \<in> set (zip_xyz (bounds_intersection mnt_bounds sim_bounds)).
         \<not> contributes ax \<longrightarrow>
           (\<forall>st. volume_step wvl_mat st ax = Inr st)
           \<and> (\<forall>vc d_vol. get_volume_disc mnt_bounds sim_bounds wvl_mat = Inr (vc, d_vol) \<longrightarrow>
                 map_of vc (fst ax) = None))
   \<and> (\<forall>vc d_vol. get_volume_disc mnt_bounds sim_bounds wvl_mat = Inr (vc, d_vol) \<longrightarrow>
         fst ` set vc = fst ` set (filter contributes (zip_xyz (bounds_intersection mnt_bounds sim_bounds)))
         \<and> d_vol = prod_list (map (axis_width wvl_mat)
                      (filter contributes (zip_xyz (bounds_intersection mnt_bounds sim_bounds)))))
   \<and> (\<forall>x1 y1 z1 X1 Y1 Z1 x2 y2 z2 X2 Y2 Z2.
         mnt_bounds = ((x1, y1, z1), (X1, Y1, Z1)) \<and> sim_bounds = ((x2, y2, z2), (X2, Y2, Z2)) \<longrightarrow>
           (min X1 X2 \<le> max x1 x2 \<longrightarrow>
              (''x'', max x1 x2, max x1 x2) \<in> set (zip_xyz (bounds_intersection mnt_bounds sim_bounds))
              \<and> \<not> contributes (''x'', max x1 x2, max x1 x2)
              \<and> (\<forall>vc d_vol. get_volume_disc mnt_bounds sim_bounds wvl_mat = Inr (vc, d_vol) \<longrightarrow>
                    map_of vc ''x'' = None))
         \<and> (min Y1 Y2 \<le> max y1 y2 \<longrightarrow>
              (''y'', max y1 y2, max y1 y2) \<in> set (zip_xyz (bounds_intersection mnt_bounds sim_bounds))
              \<and> \<not> contributes (''y'', max y1 y2, max y1 y2)
              \<and> (\<forall>vc d_vol. get_volume_disc mnt_bounds sim_bounds wvl_mat = Inr (vc, d_vol) \<longrightarrow>
                    map_of vc ''y'' = None))
         \<and> (min Z1 Z2 \<le> max z1 z2 \<longrightarrow>
              (''z'', max z1 z2, max z1 z2) \<in> set (zip_xyz (bounds_intersection mnt_bounds sim_bounds))
              \<and> \<not> contributes (''z'', max z1 z2, max z1 z2)
              \<and> (\<forall>vc d_vol. get_volume_disc mnt_bounds sim_bounds wvl_mat = Inr (vc, d_vol) \<longrightarrow>
                    map_of vc ''z'' = None)))
   \<and> (0 < wvl_mat \<longrightarrow> (\<exists>r. get_volume_disc mnt_bounds sim_bounds wvl_mat = Inr r))"
proof -
  let ?axes = "zip_xyz (bounds_intersection mnt_bounds sim_bounds)"
  have A: "get_volume_disc mnt_bounds sim_bounds wvl_mat = volume_loop wvl_mat ([], 1) (filter contributes ?axes)"
    by (simp add: get_volume_disc_def volume_loop_filter)
  have B: "\<forall>ax \<in> set ?axes. \<not> contributes ax \<longrightarrow>
           (\<forall>st. volume_step wvl_mat st ax = Inr st)
           \<and> (\<forall>vc d_vol. get_volume_disc mnt_bounds sim_bounds wvl_mat = Inr (vc, d_vol) \<longrightarrow>
                 map_of vc (fst ax) = None)"
    using volume_step_skip excluded_axis_no_key by blast
  have C: "\<forall>vc d_vol. get_volume_disc mnt_bounds sim_bounds wvl_mat = Inr (vc, d_vol) \<longrightarrow>
         fst ` set vc = fst ` set (filter contributes ?axes)
         \<and> d_vol = prod_list (map (axis_width wvl_mat) (filter contributes ?axes))"
  proof (intro allI impI conjI)
    fix vc d_vol
    assume r: "get_volume_disc mnt_bounds sim_bounds wvl_mat = Inr (vc, d_vol)"
    show "d_vol = prod_list (map (axis_width wvl_mat) (filter contributes ?axes))"
      by (rule get_volume_disc_Inr(1) [OF r])
    have "dom (map_of vc) = fst ` set (filter contributes ?axes)"
    proof (intro set_eqI iffI)
      fix k assume k: "k \<in> dom (map_of vc)"
      show "k \<in> fst ` set (filter contributes ?axes)"
      proof (rule ccontr)
        assume "k \<notin> fst ` set (filter contributes ?axes)"
        then have "map_of vc k = None" by (rule get_volume_disc_Inr(3) [OF r])
        then show False using k by auto
      qed
    next
      fix k assume "k \<in> fst ` set (filter contributes ?axes)"
      then obtain b where "b \<in> set ?axes" "contributes b" "fst b = k" by auto
      then show "k \<in> dom (map_of vc)" using get_volume_disc_Inr(2) [OF r, of b] by auto
    qed
    then show "fst ` set vc = fst ` set (filter contributes ?axes)" by (simp add: dom_map_of_conv_image_fst)
  qed
  have excl: "(k, e, e) \<in> set ?axes
              \<and> \<not> contributes (k, e, e)
              \<and> (\<forall>vc d_vol. get_volume_disc mnt_bounds sim_bounds wvl_mat = Inr (vc, d_vol) \<longrightarrow>
                    map_of vc k = None)"
    if "(k, e, e) \<in> set ?axes" for k e
  proof -
    have nc: "\<not> contributes (k, e, e)" by (simp add: contributes_def)
    show ?thesis using that nc excluded_axis_no_key [OF that nc] by simp
  qed
  have D: "\<forall>x1 y1 z1 X1 Y1 Z1 x2 y2 z2 X2 Y2 Z2.
         mnt_bounds = ((x1, y1, z1), (X1, Y1, Z1)) \<and> sim_bounds = ((x2, y2, z2), (X2, Y2, Z2)) \<longrightarrow>
           (min X1 X2 \<le> max x1 x2 \<longrightarrow>
              (''x'', max x1 x2, max x1 x2) \<in> set ?axes
              \<and> \<not> contributes (''x'', max x1 x2, max x1 x2)
              \<and> (\<forall>vc d_vol. get_volume_disc mnt_bounds sim_bounds wvl_mat = Inr (vc, d_vol) \<longrightarrow>
                    map_of vc ''x'' = None))
         \<and> (min Y1 Y2 \<le> max y1 y2 \<longrightarrow>
              (''y'', max y1 y2, max y1 y2) \<in> set ?axes
              \<and> \<not> contributes (''y'', max y1 y2, max y1 y2)
              \<and> (\<forall>vc d_vol. get_volume_disc mnt_bounds sim_bounds wvl_mat = Inr (vc, d_vol) \<longrightarrow>
                    map_of vc ''y'' = None))
         \<and> (min Z1 Z2 \<le> max z1 z2 \<longrightarrow>
              (''z'', max z1 z2, max z1 z2) \<in> set ?axes
              \<and> \<not> contributes (''z'', max z1 z2, max z1 z2)
              \<and> (\<forall>vc d_vol. get_volume_disc mnt_bounds sim_bounds wvl_mat = Inr (vc, d_vol) \<longrightarrow>
                    map_of vc ''z'' = None))"
  proof (intro allI impI conjI; elim conjE)
    fix x1 y1 z1 X1 Y1 Z1 x2 y2 z2 X2 Y2 Z2 :: real
    assume m: "mnt_bounds = ((x1, y1, z1), (X1, Y1, Z1))" and s: "sim_bounds = ((x2, y2, z2), (X2, Y2, Z2))"
    note ax = bounds_intersection_axes [of x1 y1 z1 X1 Y1 Z1 x2 y2 z2 X2 Y2 Z2, folded m s]
    {
      assume "min X1 X2 \<le> max x1 x2"
      then have "(''x'', max x1 x2, max x1 x2) \<in> set ?axes" unfolding ax by (simp add: max_absorb1)
      note excl [OF this]
    }
    note ex = this
    {
      assume "min Y1 Y2 \<le> max y1 y2"
      then have "(''y'', max y1 y2, max y1 y2) \<in> set ?axes" unfolding ax by (simp add: max_absorb1)
      note excl [OF this]
    }
    note ey = this
    {
      assume "min Z1 Z2 \<le> max z1 z2"
      then have "(''z'', max z1 z2, max z1 z2) \<in> set ?axes" unfolding ax by (simp add: max_absorb1)
      note excl [OF this]
    }
    note ez = this
    {
      assume h: "min X1 X2 \<le> max x1 x2"
      show "(''x'', max x1 x2, max x1 x2) \<in> set ?axes" using ex [OF h] by blast
      show "\<not> contributes (''x'', max x1 x2, max x1 x2)" using ex [OF h] by blast
      fix vc d_vol assume "get_volume_disc mnt_bounds sim_bounds wvl_mat = Inr (vc, d_vol)"
      then show "map_of vc ''x'' = None" using ex [OF h] by blast
    }
    {
      assume h: "min Y1 Y2 \<le> max y1 y2"
      show "(''y'', max y1 y2, max y1 y2) \<in> set ?axes" using ey [OF h] by blast
      show "\<not> contributes (''y'', max y1 y2, max y1 y2)" using ey [OF h] by blast
      fix vc d_vol assume "get_volume_disc mnt_bounds sim_bounds wvl_mat = Inr (vc, d_vol)"
      then show "map_of vc ''y'' = None" using ey [OF h] by blast
    }
    {
      assume h: "min Z1 Z2 \<le> max z1 z2"
      show "(''z'', max z1 z2, max z1 z2) \<in> set ?axes" using ez [OF h] by blast
      show "\<not> contributes (''z'', max z1 z2, max z1 z2)" using ez [OF h] by blast
      fix vc d_vol assume "get_volume_disc mnt_bounds sim_bounds wvl_mat = Inr (vc, d_vol)"
      then show "map_of vc ''z'' = None" using ez [OF h] by blast
    }
  qed
  have E: "0 < wvl_mat \<longrightarrow> (\<exists>r. get_volume_disc mnt_bounds sim_bounds wvl_mat = Inr r)"
    using get_volume_disc_total by blast
  show ?thesis using A B C D E by (intro conjI)
qed

text \<open>
  A unit cube monitor and simulation bounds one unit away along x, wavelength 10: the
  x axis is skipped and y and z have three cells each.
\<close>

lemma gvd_disjoint_x:
  "get_volume_disc ((0, 0, 0), (1, 1, 1)) ((2, 0, 0), (3, 1, 1)) 10
     = Inr ([(''y'', [1 / 6, 1 / 2, 5 / 6]), (''z'', [1 / 6, 1 / 2, 5 / 6])], 1 / 9)"
  by code_simp

theorem zero_extent_axes_excluded_witness:
  "get_volume_disc ((0, 0, 0), (1, 1, 1)) ((2, 0, 0), (3, 1, 1)) 10
     = volume_loop 10 ([], 1) [(''y'', 0, 1), (''z'', 0, 1)]
   \<and> min (1 :: real) 3 \<le> max 0 2
   \<and> (''x'', max 0 2, max 0 2) \<in> set (zip_xyz (bounds_intersection ((0, 0, 0), (1, 1, 1)) ((2, 0, 0), (3, 1, 1))))
   \<and> \<not> contributes (''x'', max 0 2, max 0 2)
   \<and> volume_step 10 ([], 1) (''x'', max 0 2, max 0 2) = Inr ([], 1)
   \<and> get_volume_disc ((0, 0, 0), (1, 1, 1)) ((2, 0, 0), (3, 1, 1)) 10
        = Inr ([(''y'', [1 / 6, 1 / 2, 5 / 6]), (''z'', [1 / 6, 1 / 2, 5 / 6])], 1 / 9)
   \<and> map_of [(''y'', [1 / 6, 1 / 2, 5 / 6 :: real]), (''z'', [1 / 6, 1 / 2, 5 / 6])] ''x'' = None
   \<and> fst ` set [(''y'', [1 / 6, 1 / 2, 5 / 6 :: real]), (''z'', [1 / 6, 1 / 2, 5 / 6])] = {''y'', ''z''}
   \<and> prod_list (map (axis_width 10) [(''y'', 0, 1), (''z'', 0, 1)]) = 1 / 9
   \<and> (0 :: real) < 10
   \<and> (\<exists>r. get_volume_disc ((0, 0, 0), (1, 1, 1)) ((2, 0, 0), (3, 1, 1)) 10 = Inr r)"
proof -
  have f: "filter contributes (zip_xyz (bounds_intersection ((0, 0, 0), (1, 1, 1)) ((2, 0, 0), (3, 1, 1))))
      = [(''y'', 0, 1), (''z'', 0, 1)]"
    by (simp add: bounds_intersection_axes contributes_def)
  have h: "min (1 :: real) 3 \<le> max 0 2" by simp
  have z: "(0 :: real) < 10" by simp
  note T = zero_extent_axes_excluded [of "((0, 0, 0), (1, 1, 1))" "((2, 0, 0), (3, 1, 1))" 10]
  have a: "get_volume_disc ((0, 0, 0), (1, 1, 1)) ((2, 0, 0), (3, 1, 1)) 10
     = volume_loop 10 ([], 1) [(''y'', 0, 1), (''z'', 0, 1)]"
    using T [THEN conjunct1] unfolding f .
  note X = T [THEN conjunct2, THEN conjunct2, THEN conjunct2, THEN conjunct1, rule_format,
      OF conjI [OF refl refl], THEN conjunct1, rule_format, OF h]
  have m: "(''x'', max 0 2, max 0 2) \<in> set (zip_xyz (bounds_intersection ((0, 0, 0), (1, 1, 1)) ((2, 0, 0), (3, 1, 1))))"
    and nc: "\<not> contributes (''x'', max 0 2, max (0 :: real) 2)"
    and k: "map_of [(''y'', [1 / 6, 1 / 2, 5 / 6 :: real]), (''z'', [1 / 6, 1 / 2, 5 / 6])] ''x'' = None"
    using X gvd_disjoint_x by blast+
  have b: "volume_step 10 ([], 1) (''x'', max 0 2, max 0 2) = Inr ([], 1)"
    using T [THEN conjunct2, THEN conjunct1, rule_format, OF m nc] by blast
  have c: "prod_list (map (axis_width 10) [(''y'', 0, 1), (''z'', 0, 1)]) = 1 / 9"
    using T [THEN conjunct2, THEN conjunct2, THEN conjunct1, rule_format, OF gvd_disjoint_x]
    unfolding f by simp
  have d: "fst ` set [(''y'', [1 / 6, 1 / 2, 5 / 6 :: real]), (''z'', [1 / 6, 1 / 2, 5 / 6])] = {''y'', ''z''}"
    by simp
  have e: "\<exists>r. get_volume_disc ((0, 0, 0), (1, 1, 1)) ((2, 0, 0), (3, 1, 1)) 10 = Inr r"
    using T z by blast
  show ?thesis using a h m nc b gvd_disjoint_x k d c z e by (intro conjI)
qed

text \<open>
  Claim C3.  Whenever the method returns, every contributing axis has
  \<open>n = num_cells_dim\<close> sample coordinates, \<open>n \<ge> 1\<close>, which are the cell centres: they
  start at \<open>min_edge + width / 2\<close>, end at \<open>max_edge - width / 2\<close> and are
  \<open>width = (max_edge - min_edge) / n\<close> apart; the differential volume is the product of
  the widths of the contributing axes, and 1 when there is none.  The method does
  return when the wavelength is positive and no axis of the intersection has
  \<open>max_edge < min_edge\<close>.
\<close>

theorem get_volume_disc_cell_centred:
  "(0 < wvl_mat
      \<and> (\<forall>(coord_name, min_edge, max_edge) \<in> set (zip_xyz (bounds_intersection mnt_bounds sim_bounds)).
            min_edge \<le> max_edge)
      \<longrightarrow> (\<exists>r. get_volume_disc mnt_bounds sim_bounds wvl_mat = Inr r))
   \<and> (\<forall>vc d_vol. get_volume_disc mnt_bounds sim_bounds wvl_mat = Inr (vc, d_vol) \<longrightarrow>
         (\<forall>(coord_name, min_edge, max_edge) \<in> set (zip_xyz (bounds_intersection mnt_bounds sim_bounds)).
            max_edge - min_edge \<noteq> 0 \<longrightarrow>
              (\<exists>n cs. 0 < n
                 \<and> num_cells_dim (max_edge - min_edge) wvl_mat = Inr (int n)
                 \<and> map_of vc coord_name = Some cs
                 \<and> cs = cell_centres min_edge ((max_edge - min_edge) / real n) n
                 \<and> length cs = n
                 \<and> hd cs = min_edge + (max_edge - min_edge) / real n / 2
                 \<and> last cs = max_edge - (max_edge - min_edge) / real n / 2))
         \<and> d_vol = prod_list (map (axis_width wvl_mat)
                      (filter contributes (zip_xyz (bounds_intersection mnt_bounds sim_bounds))))
         \<and> (filter contributes (zip_xyz (bounds_intersection mnt_bounds sim_bounds)) = [] \<longrightarrow> d_vol = 1))"
proof (intro conjI allI impI)
  let ?axes = "zip_xyz (bounds_intersection mnt_bounds sim_bounds)"
  assume a: "0 < wvl_mat \<and> (\<forall>(coord_name, min_edge, max_edge) \<in> set ?axes. min_edge \<le> max_edge)"
  then have "\<forall>ax \<in> set ?axes. fst (snd ax) \<le> snd (snd ax)" by auto
  with a show "\<exists>r. get_volume_disc mnt_bounds sim_bounds wvl_mat = Inr r"
    unfolding get_volume_disc_def by (intro volume_loop_total) simp_all
next
  let ?axes = "zip_xyz (bounds_intersection mnt_bounds sim_bounds)"
  fix vc d_vol
  assume r: "get_volume_disc mnt_bounds sim_bounds wvl_mat = Inr (vc, d_vol)"
  show dv: "d_vol = prod_list (map (axis_width wvl_mat) (filter contributes ?axes))"
    by (rule get_volume_disc_Inr(1) [OF r])
  show "d_vol = 1" if "filter contributes ?axes = []"
    using dv that by simp
  show "\<forall>(coord_name, min_edge, max_edge) \<in> set ?axes.
            max_edge - min_edge \<noteq> 0 \<longrightarrow>
              (\<exists>n cs. 0 < n
                 \<and> num_cells_dim (max_edge - min_edge) wvl_mat = Inr (int n)
                 \<and> map_of vc coord_name = Some cs
                 \<and> cs = cell_centres min_edge ((max_edge - min_edge) / real n) n
                 \<and> length cs = n
                 \<and> hd cs = min_edge + (max_edge - min_edge) / real n / 2
                 \<and> last cs = max_edge - (max_edge - min_edge) / real n / 2)"
  proof (intro ballI, clarify)
    fix coord_name :: string and min_edge max_edge :: real
    let ?ax = "(coord_name, min_edge, max_edge)"
    assume ax: "?ax \<in> set ?axes" and nz: "max_edge - min_edge \<noteq> 0"
    have c: "contributes ?ax" using nz by (simp add: contributes_def)
    from get_volume_disc_Inr(2) [OF r ax c]
    have w0: "wvl_mat \<noteq> 0" and n0: "0 < axis_cells wvl_mat ?ax"
      and m: "map_of vc coord_name
                = Some (cell_centres min_edge (axis_width wvl_mat ?ax) (nat (axis_cells wvl_mat ?ax)))"
      by simp_all
    define n where "n = nat (axis_cells wvl_mat ?ax)"
    have npos: "0 < n" and ni: "int n = axis_cells wvl_mat ?ax" using n0 by (simp_all add: n_def)
    have w: "axis_width wvl_mat ?ax = (max_edge - min_edge) / real n"
    proof -
      have "real_of_int (axis_cells wvl_mat ?ax) = real n" using ni by (metis of_int_of_nat_eq)
      then show ?thesis by (simp add: axis_width_def)
    qed
    have nc: "num_cells_dim (max_edge - min_edge) wvl_mat = Inr (int n)"
      using w0 ni by (simp add: num_cells_dim_def axis_cells_def)
    let ?cs = "cell_centres min_edge ((max_edge - min_edge) / real n) n"
    have "map_of vc coord_name = Some ?cs" using m w n_def by simp
    moreover have "length ?cs = n" by (rule cell_centres_length)
    moreover have "hd ?cs = min_edge + (max_edge - min_edge) / real n / 2"
      using npos by (rule cell_centres_hd)
    moreover have "last ?cs = max_edge - (max_edge - min_edge) / real n / 2"
      using npos by (rule cell_centres_last_eq) simp
    ultimately show "\<exists>n cs. 0 < n
                 \<and> num_cells_dim (max_edge - min_edge) wvl_mat = Inr (int n)
                 \<and> map_of vc coord_name = Some cs
                 \<and> cs = cell_centres min_edge ((max_edge - min_edge) / real n) n
                 \<and> length cs = n
                 \<and> hd cs = min_edge + (max_edge - min_edge) / real n / 2
                 \<and> last cs = max_edge - (max_edge - min_edge) / real n / 2"
      using npos nc by blast
  qed
qed

theorem get_volume_disc_cell_centred_witness:
  "(0 :: real) < 10
   \<and> (\<exists>r. get_volume_disc ((0, 0, 0), (1, 1, 0)) ((0, 0, 0), (1, 1, 0)) 10 = Inr r)
   \<and> get_volume_disc ((0, 0, 0), (1, 1, 0)) ((0, 0, 0), (1, 1, 0)) 10
        = Inr ([(''x'', [1 / 6, 1 / 2, 5 / 6]), (''y'', [1 / 6, 1 / 2, 5 / 6])], 1 / 9)
   \<and> (''x'', 0, 1) \<in> set (zip_xyz (bounds_intersection ((0, 0, 0), (1, 1, 0)) ((0, 0, 0), (1, 1, 0))))
   \<and> (\<exists>n cs. 0 < n
         \<and> num_cells_dim (1 - 0) 10 = Inr (int n)
         \<and> map_of [(''x'', [1 / 6, 1 / 2, 5 / 6 :: real]), (''y'', [1 / 6, 1 / 2, 5 / 6])] ''x'' = Some cs
         \<and> cs = cell_centres 0 ((1 - 0) / real n) n
         \<and> length cs = n
         \<and> hd cs = 0 + (1 - 0) / real n / 2
         \<and> last cs = 1 - (1 - 0) / real n / 2)
   \<and> (1 / 9 :: real) = prod_list (map (axis_width 10) [(''x'', 0, 1), (''y'', 0, 1)])"
proof -
  have f: "filter contributes (zip_xyz (bounds_intersection ((0, 0, 0), (1, 1, 0)) ((0, 0, 0), (1, 1, 0))))
      = [(''x'', 0, 1), (''y'', 0, 1)]"
    by (simp add: zip_xyz_def bounds_intersection_def contributes_def)
  have m: "(''x'', 0, 1) \<in> set (zip_xyz (bounds_intersection ((0, 0, 0), (1, 1, 0)) ((0, 0, 0), (1, 1, 0))))"
    by (simp add: zip_xyz_def bounds_intersection_def)
  note T = get_volume_disc_cell_centred [of 10 "((0, 0, 0), (1, 1, 0))" "((0, 0, 0), (1, 1, 0))"]
  have a: "\<exists>r. get_volume_disc ((0, 0, 0), (1, 1, 0)) ((0, 0, 0), (1, 1, 0)) 10 = Inr r"
    using T [THEN conjunct1] by (simp add: zip_xyz_def bounds_intersection_def)
  note U = T [THEN conjunct2, rule_format, OF gvd_square]
  have b: "(1 / 9 :: real) = prod_list (map (axis_width 10) [(''x'', 0, 1), (''y'', 0, 1)])"
    using U [THEN conjunct2, THEN conjunct1] unfolding f .
  have c: "\<exists>n cs. 0 < n
         \<and> num_cells_dim (1 - 0) 10 = Inr (int n)
         \<and> map_of [(''x'', [1 / 6, 1 / 2, 5 / 6 :: real]), (''y'', [1 / 6, 1 / 2, 5 / 6])] ''x'' = Some cs
         \<and> cs = cell_centres 0 ((1 - 0) / real n) n
         \<and> length cs = n
         \<and> hd cs = 0 + (1 - 0) / real n / 2
         \<and> last cs = 1 - (1 - 0) / real n / 2"
  proof -
    from U [THEN conjunct1, rule_format, OF m]
    have "(1 :: real) - 0 \<noteq> 0 \<longrightarrow> ?thesis" unfolding prod.case .
    moreover have "(1 :: real) - 0 \<noteq> 0" by simp
    ultimately show ?thesis by (rule mp)
  qed
  have z: "(0 :: real) < 10" by simp
  show ?thesis using z a gvd_square m c b by blast
qed


section \<open>Properties of the gradients\<close>

lemma field_contribution_Inr_iff:
  "(field_contribution ops field grad_data_fwd grad_data_adj sim_bounds wvl_mat = Inr r) =
     (\<exists>vol_coords d_vol e_fwd e_adj prod_fa e_sel integrand.
        get_volume_disc (monitor_bounds grad_data_fwd) sim_bounds wvl_mat = Inr (vol_coords, d_vol)
      \<and> field_components grad_data_fwd field = Some e_fwd
      \<and> field_components grad_data_adj field = Some e_adj
      \<and> xr_mul ops e_fwd e_adj = Inr prod_fa
      \<and> xr_isel ops [(''f'', 0)] (xr_real ops prod_fa) = Inr e_sel
      \<and> xr_interp ops vol_coords e_sel = Inr integrand
      \<and> r = d_vol * sum_list (nd_data (xr_values ops integrand)))"
  unfolding field_contribution_def Let_def nd_sum_def
  by (auto split: sum.splits option.splits prod.splits)

text \<open>
  Claim C4.  \<^verbatim>\<open>field_contribution\<close> returns a number exactly when the discretisation
  of the forward monitor against the simulation bounds returns, both data sets hold the
  named component and the library calls succeed; the number is then the differential
  volume times the sum of the entries of: the product of the forward and the adjoint
  component, its real part, selected at frequency index 0, interpolated at the sample
  coordinates.  The monitor of the adjoint data is not read.
\<close>

theorem field_contribution_value:
  "(field_contribution ops field grad_data_fwd grad_data_adj sim_bounds wvl_mat = Inr r) =
     (\<exists>vol_coords d_vol e_fwd e_adj prod_fa e_sel integrand.
        get_volume_disc (monitor_bounds grad_data_fwd) sim_bounds wvl_mat = Inr (vol_coords, d_vol)
      \<and> field_components grad_data_fwd field = Some e_fwd
      \<and> field_components grad_data_adj field = Some e_adj
      \<and> xr_mul ops e_fwd e_adj = Inr prod_fa
      \<and> xr_isel ops [(''f'', 0)] (xr_real ops prod_fa) = Inr e_sel
      \<and> xr_interp ops vol_coords e_sel = Inr integrand
      \<and> r = d_vol * sum_list (nd_data (xr_values ops integrand)))
   \<and> field_contribution ops field grad_data_fwd (grad_data_adj\<lparr>monitor_bounds := b\<rparr>) sim_bounds wvl_mat
       = field_contribution ops field grad_data_fwd grad_data_adj sim_bounds wvl_mat"
proof
  show "(field_contribution ops field grad_data_fwd grad_data_adj sim_bounds wvl_mat = Inr r) =
     (\<exists>vol_coords d_vol e_fwd e_adj prod_fa e_sel integrand.
        get_volume_disc (monitor_bounds grad_data_fwd) sim_bounds wvl_mat = Inr (vol_coords, d_vol)
      \<and> field_components grad_data_fwd field = Some e_fwd
      \<and> field_components grad_data_adj field = Some e_adj
      \<and> xr_mul ops e_fwd e_adj = Inr prod_fa
      \<and> xr_isel ops [(''f'', 0)] (xr_real ops prod_fa) = Inr e_sel
      \<and> xr_interp ops vol_coords e_sel = Inr integrand
      \<and> r = d_vol * sum_list (nd_data (xr_values ops integrand)))"
    by (rule field_contribution_Inr_iff)
  show "field_contribution ops field grad_data_fwd (grad_data_adj\<lparr>monitor_bounds := b\<rparr>) sim_bounds wvl_mat
       = field_contribution ops field grad_data_fwd grad_data_adj sim_bounds wvl_mat"
    by (simp add: field_contribution_def split: sum.splits prod.splits option.splits)
qed

lemma vjp_accumulate_three:
  "vjp_accumulate ops fwd adj sb w acc [f1, f2, f3] =
     (case field_contribution ops f1 fwd adj sb w of
        Inl e \<Rightarrow> Inl e
      | Inr c1 \<Rightarrow>
        (case field_contribution ops f2 fwd adj sb w of
           Inl e \<Rightarrow> Inl e
         | Inr c2 \<Rightarrow>
           (case field_contribution ops f3 fwd adj sb w of
              Inl e \<Rightarrow> Inl e
            | Inr c3 \<Rightarrow> Inr (acc + c1 + c2 + c3))))"
  by (simp split: sum.splits)

text \<open>
  Claim C5.  \<^verbatim>\<open>store_vjp\<close> of an isotropic medium returns a medium exactly when the
  three field contributions for Ex, Ey and Ez return numbers; the medium it returns is
  the input with \<open>permittivity\<close> replaced by their sum and every other field as it
  was.  The model is a function of its arguments: the input medium and the field data
  are values and are not changed.
\<close>

theorem store_vjp_sum_of_contributions:
  "(store_vjp ops self grad_data_fwd grad_data_adj sim_bounds wvl_mat = Inr m) =
     (\<exists>cx cy cz.
        field_contribution ops ''Ex'' grad_data_fwd grad_data_adj sim_bounds wvl_mat = Inr cx
      \<and> field_contribution ops ''Ey'' grad_data_fwd grad_data_adj sim_bounds wvl_mat = Inr cy
      \<and> field_contribution ops ''Ez'' grad_data_fwd grad_data_adj sim_bounds wvl_mat = Inr cz
      \<and> m = self\<lparr>permittivity := cx + cy + cz\<rparr>)
   \<and> (store_vjp ops self grad_data_fwd grad_data_adj sim_bounds wvl_mat = Inr m
        \<longrightarrow> medium_fields m = medium_fields self)"
  unfolding store_vjp_def vjp_accumulate_three
  by (auto split: sum.splits)


lemma sample_contribution_Ex:
  "field_contribution sample_ops ''Ex'' (sample_data [1, 2] [0, 0] [5, 6]) (sample_data [3, 4] [1, 1] [1, 2])
     ((0, 0, 0), (1, 1, 0)) 10 = Inr (11 / 9)"
  by code_simp

lemma sample_contribution_Ey:
  "field_contribution sample_ops ''Ey'' (sample_data [1, 2] [0, 0] [5, 6]) (sample_data [3, 4] [1, 1] [1, 2])
     ((0, 0, 0), (1, 1, 0)) 10 = Inr 0"
  by code_simp

lemma sample_contribution_Ez:
  "field_contribution sample_ops ''Ez'' (sample_data [1, 2] [0, 0] [5, 6]) (sample_data [3, 4] [1, 1] [1, 2])
     ((0, 0, 0), (1, 1, 0)) 10 = Inr (17 / 9)"
  by code_simp

theorem field_contribution_value_witness:
  "field_contribution sample_ops ''Ex'' (sample_data [1, 2] [0, 0] [5, 6]) (sample_data [3, 4] [1, 1] [1, 2])
     ((0, 0, 0), (1, 1, 0)) 10 = Inr (11 / 9)
   \<and> (\<exists>vol_coords d_vol e_fwd e_adj prod_fa e_sel integrand.
        get_volume_disc (monitor_bounds (sample_data [1, 2] [0, 0] [5, 6])) ((0, 0, 0), (1, 1, 0)) 10
          = Inr (vol_coords, d_vol)
      \<and> field_components (sample_data [1, 2] [0, 0] [5, 6]) ''Ex'' = Some e_fwd
      \<and> field_components (sample_data [3, 4] [1, 1] [1, 2]) ''Ex'' = Some e_adj
      \<and> xr_mul sample_ops e_fwd e_adj = Inr prod_fa
      \<and> xr_isel sample_ops [(''f'', 0)] (xr_real sample_ops prod_fa) = Inr e_sel
      \<and> xr_interp sample_ops vol_coords e_sel = Inr integrand
      \<and> 11 / 9 = d_vol * sum_list (nd_data (xr_values sample_ops integrand)))"
  using iffD1 [OF field_contribution_value [THEN conjunct1] sample_contribution_Ex]
    sample_contribution_Ex
  by blast

theorem store_vjp_sum_of_contributions_witness:
  "store_vjp sample_ops \<lparr>permittivity = 2, medium_fields = ()\<rparr>
     (sample_data [1, 2] [0, 0] [5, 6]) (sample_data [3, 4] [1, 1] [1, 2]) ((0, 0, 0), (1, 1, 0)) 10
     = Inr \<lparr>permittivity = 28 / 9, medium_fields = ()\<rparr>
   \<and> medium_fields \<lparr>permittivity = 28 / 9, medium_fields = ()\<rparr>
       = medium_fields \<lparr>permittivity = 2 :: real, medium_fields = ()\<rparr>"
proof -
  note T = store_vjp_sum_of_contributions [of sample_ops "\<lparr>permittivity = 2, medium_fields = ()\<rparr>"
      "sample_data [1, 2] [0, 0] [5, 6]" "sample_data [3, 4] [1, 1] [1, 2]" "((0, 0, 0), (1, 1, 0))" 10
      "\<lparr>permittivity = 28 / 9, medium_fields = ()\<rparr>"]
  have "\<exists>cx cy cz.
        field_contribution sample_ops ''Ex'' (sample_data [1, 2] [0, 0] [5, 6]) (sample_data [3, 4] [1, 1] [1, 2])
          ((0, 0, 0), (1, 1, 0)) 10 = Inr cx
      \<and> field_contribution sample_ops ''Ey'' (sample_data [1, 2] [0, 0] [5, 6]) (sample_data [3, 4] [1, 1] [1, 2])
          ((0, 0, 0), (1, 1, 0)) 10 = Inr cy
      \<and> field_contribution sample_ops ''Ez'' (sample_data [1, 2] [0, 0] [5, 6]) (sample_data [3, 4] [1, 1] [1, 2])
          ((0, 0, 0), (1, 1, 0)) 10 = Inr cz
      \<and> \<lparr>permittivity = 28 / 9, medium_fields = ()\<rparr>
          = \<lparr>permittivity = 2, medium_fields = ()\<rparr>\<lparr>permittivity := cx + cy + cz\<rparr>"
    by (rule exI [of _ "11 / 9"], rule exI [of _ 0], rule exI [of _ "17 / 9"])
      (simp add: sample_contribution_Ex sample_contribution_Ey sample_contribution_Ez)
  then have r: "store_vjp sample_ops \<lparr>permittivity = 2, medium_fields = ()\<rparr>
     (sample_data [1, 2] [0, 0] [5, 6]) (sample_data [3, 4] [1, 1] [1, 2]) ((0, 0, 0), (1, 1, 0)) 10
     = Inr \<lparr>permittivity = 28 / 9, medium_fields = ()\<rparr>"
    by (rule iffD2 [OF T [THEN conjunct1]])
  from T [THEN conjunct2, rule_format, OF r] r show ?thesis by simp
qed


lemma field_contribution_other_component:
  assumes "field \<noteq> other"
  shows "field_contribution ops field
           (grad_data_fwd\<lparr>field_components := (field_components grad_data_fwd)(other := e1)\<rparr>)
           (grad_data_adj\<lparr>field_components := (field_components grad_data_adj)(other := e2)\<rparr>)
           sim_bounds wvl_mat
         = field_contribution ops field grad_data_fwd grad_data_adj sim_bounds wvl_mat"
  using assms by (simp add: field_contribution_def split: sum.splits prod.splits option.splits)

lemma store_vjp_anisotropic_Inr_iff:
  "(store_vjp_anisotropic ops defaults self fwd adj sb w = Inr m) =
     (\<exists>cx cy cz.
        field_contribution ops ''Ex'' fwd adj sb w = Inr cx
      \<and> field_contribution ops ''Ey'' fwd adj sb w = Inr cy
      \<and> field_contribution ops ''Ez'' fwd adj sb w = Inr cz
      \<and> m = self\<lparr>xx := JaxMedium_init defaults cx, yy := JaxMedium_init defaults cy,
                 zz := JaxMedium_init defaults cz\<rparr>)"
  unfolding store_vjp_anisotropic_def
  by (auto simp: components_def copy_update_anisotropic_def Let_def split: sum.splits)

text \<open>
  Claim C6.  Take two runs of \<^verbatim>\<open>JaxAnisotropicMedium.store_vjp\<close> on the same medium,
  bounds and wavelength, whose forward and adjoint data differ at most in the component
  Ez, which may be anything or missing in the second run.  If both runs return, the
  returned xx media are equal and the returned yy media are equal; each holds the
  contribution of its own field component.
\<close>

theorem anisotropic_diagonal_independence:
  assumes "store_vjp_anisotropic ops defaults self grad_data_fwd grad_data_adj sim_bounds wvl_mat = Inr m1"
    and "store_vjp_anisotropic ops defaults self
           (grad_data_fwd\<lparr>field_components := (field_components grad_data_fwd)(''Ez'' := ez_fwd)\<rparr>)
           (grad_data_adj\<lparr>field_components := (field_components grad_data_adj)(''Ez'' := ez_adj)\<rparr>)
           sim_bounds wvl_mat = Inr m2"
  shows "xx m1 = xx m2 \<and> yy m1 = yy m2
       \<and> field_contribution ops ''Ex'' grad_data_fwd grad_data_adj sim_bounds wvl_mat
           = Inr (permittivity (xx m1))
       \<and> field_contribution ops ''Ey'' grad_data_fwd grad_data_adj sim_bounds wvl_mat
           = Inr (permittivity (yy m1))"
proof -
  from assms(1) obtain cx cy cz where
    c1: "field_contribution ops ''Ex'' grad_data_fwd grad_data_adj sim_bounds wvl_mat = Inr cx"
        "field_contribution ops ''Ey'' grad_data_fwd grad_data_adj sim_bounds wvl_mat = Inr cy"
    and m1: "m1 = self\<lparr>xx := JaxMedium_init defaults cx, yy := JaxMedium_init defaults cy,
                 zz := JaxMedium_init defaults cz\<rparr>"
    unfolding store_vjp_anisotropic_Inr_iff by blast
  from assms(2) obtain dx dy dz where
    c2: "field_contribution ops ''Ex''
           (grad_data_fwd\<lparr>field_components := (field_components grad_data_fwd)(''Ez'' := ez_fwd)\<rparr>)
           (grad_data_adj\<lparr>field_components := (field_components grad_data_adj)(''Ez'' := ez_adj)\<rparr>)
           sim_bounds wvl_mat = Inr dx"
        "field_contribution ops ''Ey''
           (grad_data_fwd\<lparr>field_components := (field_components grad_data_fwd)(''Ez'' := ez_fwd)\<rparr>)
           (grad_data_adj\<lparr>field_components := (field_components grad_data_adj)(''Ez'' := ez_adj)\<rparr>)
           sim_bounds wvl_mat = Inr dy"
    and m2: "m2 = self\<lparr>xx := JaxMedium_init defaults dx, yy := JaxMedium_init defaults dy,
                 zz := JaxMedium_init defaults dz\<rparr>"
    unfolding store_vjp_anisotropic_Inr_iff by blast
  have "dx = cx" using c1(1) c2(1) by (simp add: field_contribution_other_component)
  moreover have "dy = cy" using c1(2) c2(2) by (simp add: field_contribution_other_component)
  ultimately show ?thesis using m1 m2 c1 by (simp add: JaxMedium_init_def)
qed


lemma sample_anisotropic_run1:
  "store_vjp_anisotropic sample_ops ()
     \<lparr>xx = \<lparr>permittivity = 2, medium_fields = ()\<rparr>, yy = \<lparr>permittivity = 3, medium_fields = ()\<rparr>,
      zz = \<lparr>permittivity = 4, medium_fields = ()\<rparr>, anisotropic_fields = ()\<rparr>
     (sample_data [1, 2] [0, 0] [5, 6]) (sample_data [3, 4] [1, 1] [1, 2]) ((0, 0, 0), (1, 1, 0)) 10
   = Inr \<lparr>xx = \<lparr>permittivity = 11 / 9, medium_fields = ()\<rparr>, yy = \<lparr>permittivity = 0, medium_fields = ()\<rparr>,
          zz = \<lparr>permittivity = 17 / 9, medium_fields = ()\<rparr>, anisotropic_fields = ()\<rparr>"
  by code_simp

lemma sample_anisotropic_run2:
  "store_vjp_anisotropic sample_ops ()
     \<lparr>xx = \<lparr>permittivity = 2, medium_fields = ()\<rparr>, yy = \<lparr>permittivity = 3, medium_fields = ()\<rparr>,
      zz = \<lparr>permittivity = 4, medium_fields = ()\<rparr>, anisotropic_fields = ()\<rparr>
     ((sample_data [1, 2] [0, 0] [5, 6])
        \<lparr>field_components := (field_components (sample_data [1, 2] [0, 0] [5, 6]))
           (''Ez'' := Some (sample_field [7, 8]))\<rparr>)
     ((sample_data [3, 4] [1, 1] [1, 2])
        \<lparr>field_components := (field_components (sample_data [3, 4] [1, 1] [1, 2]))
           (''Ez'' := Some (sample_field [1, 1]))\<rparr>)
     ((0, 0, 0), (1, 1, 0)) 10
   = Inr \<lparr>xx = \<lparr>permittivity = 11 / 9, medium_fields = ()\<rparr>, yy = \<lparr>permittivity = 0, medium_fields = ()\<rparr>,
          zz = \<lparr>permittivity = 5 / 3, medium_fields = ()\<rparr>, anisotropic_fields = ()\<rparr>"
  by code_simp

theorem anisotropic_diagonal_independence_witness:
  "store_vjp_anisotropic sample_ops ()
     \<lparr>xx = \<lparr>permittivity = 2, medium_fields = ()\<rparr>, yy = \<lparr>permittivity = 3, medium_fields = ()\<rparr>,
      zz = \<lparr>permittivity = 4, medium_fields = ()\<rparr>, anisotropic_fields = ()\<rparr>
     (sample_data [1, 2] [0, 0] [5, 6]) (sample_data [3, 4] [1, 1] [1, 2]) ((0, 0, 0), (1, 1, 0)) 10
   = Inr \<lparr>xx = \<lparr>permittivity = 11 / 9, medium_fields = ()\<rparr>, yy = \<lparr>permittivity = 0, medium_fields = ()\<rparr>,
          zz = \<lparr>permittivity = 17 / 9, medium_fields = ()\<rparr>, anisotropic_fields = ()\<rparr>
   \<and> store_vjp_anisotropic sample_ops ()
     \<lparr>xx = \<lparr>permittivity = 2, medium_fields = ()\<rparr>, yy = \<lparr>permittivity = 3, medium_fields = ()\<rparr>,
      zz = \<lparr>permittivity = 4, medium_fields = ()\<rparr>, anisotropic_fields = ()\<rparr>
     ((sample_data [1, 2] [0, 0] [5, 6])
        \<lparr>field_components := (field_components (sample_data [1, 2] [0, 0] [5, 6]))
           (''Ez'' := Some (sample_field [7, 8]))\<rparr>)
     ((sample_data [3, 4] [1, 1] [1, 2])
        \<lparr>field_components := (field_components (sample_data [3, 4] [1, 1] [1, 2]))
           (''Ez'' := Some (sample_field [1, 1]))\<rparr>)
     ((0, 0, 0), (1, 1, 0)) 10
   = Inr \<lparr>xx = \<lparr>permittivity = 11 / 9, medium_fields = ()\<rparr>, yy = \<lparr>permittivity = 0, medium_fields = ()\<rparr>,
          zz = \<lparr>permittivity = 5 / 3, medium_fields = ()\<rparr>, anisotropic_fields = ()\<rparr>
   \<and> field_contribution sample_ops ''Ex'' (sample_data [1, 2] [0, 0] [5, 6]) (sample_data [3, 4] [1, 1] [1, 2])
        ((0, 0, 0), (1, 1, 0)) 10 = Inr (11 / 9)
   \<and> field_contribution sample_ops ''Ey'' (sample_data [1, 2] [0, 0] [5, 6]) (sample_data [3, 4] [1, 1] [1, 2])
        ((0, 0, 0), (1, 1, 0)) 10 = Inr 0"
  using anisotropic_diagonal_independence [OF sample_anisotropic_run1 sample_anisotropic_run2]
    sample_anisotropic_run1 sample_anisotropic_run2
  by simp


lemma interp_coords_of_Inr:
  "interp_coords_of crds ds = Inr r \<Longrightarrow>
     ((d, c) \<in> set r) = (d \<in> set ds \<and> map_of crds d = Some c \<and> 1 < length c)"
  by (induction ds arbitrary: r) (auto split: option.splits sum.splits if_splits)

lemma isel_coords_of_Inr:
  "isel_coords_of crds ds = Inr r \<Longrightarrow>
     ((d, i) \<in> set r) = (d \<in> set ds \<and> i = 0 \<and> (\<exists>c. map_of crds d = Some c \<and> length c \<le> 1))"
  by (induction ds arbitrary: r) (auto split: option.splits sum.splits if_splits)

lemma vjp_data_array_Inr:
  assumes "vjp_data_array ops orig_data_array grad_data_fwd grad_data_adj field_name = Inr a"
  shows "\<exists>interp_coords isel_coords e_fwd e_adj prod_fa e_sel e_dotted.
           interp_coords_of (coords orig_data_array) [''x'', ''y'', ''z''] = Inr interp_coords
         \<and> isel_coords_of (coords orig_data_array) [''x'', ''y'', ''z''] = Inr isel_coords
         \<and> field_components grad_data_fwd field_name = Some e_fwd
         \<and> field_components grad_data_adj field_name = Some e_adj
         \<and> xr_mul ops e_fwd e_adj = Inr prod_fa
         \<and> xr_isel ops ((''f'', 0) # isel_coords) prod_fa = Inr e_sel
         \<and> xr_interp ops interp_coords e_sel = Inr e_dotted
         \<and> coords a = coords orig_data_array
         \<and> nd_shape (values_nd a) = map (\<lambda>(_, coord). length coord) (coords orig_data_array)
         \<and> nd_data (values_nd a) = nd_data (xr_values ops (xr_real ops e_dotted))"
  using assms unfolding vjp_data_array_def Let_def reshape_def nd_scale_def
  by (auto split: sum.splits option.splits if_splits simp: map_idI)

lemma store_vjp_custom_Inr:
  assumes "store_vjp_custom ops self grad_data_fwd grad_data_adj sim_bounds wvl_mat = Inr m"
  shows "vjp_data_array ops (eps_xx (eps_dataset self)) grad_data_fwd grad_data_adj ''Ex''
           = Inr (eps_xx (eps_dataset m))"
    and "vjp_data_array ops (eps_yy (eps_dataset self)) grad_data_fwd grad_data_adj ''Ey''
           = Inr (eps_yy (eps_dataset m))"
    and "vjp_data_array ops (eps_zz (eps_dataset self)) grad_data_fwd grad_data_adj ''Ez''
           = Inr (eps_zz (eps_dataset m))"
    and "custom_fields m = custom_fields self"
  using assms unfolding store_vjp_custom_def
  by (auto simp: eps_field_components_def JaxPermittivityDataset_init_def Let_def
      split: sum.splits option.splits)


text \<open>
  Claim C7.  Let \<^verbatim>\<open>JaxCustomMedium.store_vjp\<close> return a medium, and take a diagonal
  component eps_aa with its field Ea.  Then the product of the forward and adjoint Ea
  was index-selected at 0 along f and along exactly those axes of x, y, z whose stored
  coordinate vector has length at most 1, and interpolated along exactly the other axes
  of x, y, z, at the stored coordinate vectors; the returned component keeps the
  coordinate dict of the original, its value array has the shape of the coordinate
  grid (the lengths of the coordinate vectors, in the order of the dict), and its
  entries are the real part of the interpolated product.  The other fields of the
  medium are kept.
\<close>

theorem custom_store_vjp_component:
  assumes "store_vjp_custom ops self grad_data_fwd grad_data_adj sim_bounds wvl_mat = Inr m"
    and "(sel, field_name) \<in> {(eps_xx, ''Ex''), (eps_yy, ''Ey''), (eps_zz, ''Ez'')}"
  shows "\<exists>interp_coords isel_coords e_fwd e_adj prod_fa e_sel e_dotted.
           (\<forall>d c. ((d, c) \<in> set interp_coords) =
                    (d \<in> {''x'', ''y'', ''z''} \<and> map_of (coords (sel (eps_dataset self))) d = Some c
                       \<and> 1 < length c))
         \<and> (\<forall>d i. ((d, i) \<in> set isel_coords) =
                    (d \<in> {''x'', ''y'', ''z''} \<and> i = 0
                       \<and> (\<exists>c. map_of (coords (sel (eps_dataset self))) d = Some c \<and> length c \<le> 1)))
         \<and> field_components grad_data_fwd field_name = Some e_fwd
         \<and> field_components grad_data_adj field_name = Some e_adj
         \<and> xr_mul ops e_fwd e_adj = Inr prod_fa
         \<and> xr_isel ops ((''f'', 0) # isel_coords) prod_fa = Inr e_sel
         \<and> xr_interp ops interp_coords e_sel = Inr e_dotted
         \<and> coords (sel (eps_dataset m)) = coords (sel (eps_dataset self))
         \<and> nd_shape (values_nd (sel (eps_dataset m)))
             = map (\<lambda>(_, coord). length coord) (coords (sel (eps_dataset self)))
         \<and> nd_data (values_nd (sel (eps_dataset m))) = nd_data (xr_values ops (xr_real ops e_dotted))
         \<and> custom_fields m = custom_fields self"
proof -
  have run: "vjp_data_array ops (sel (eps_dataset self)) grad_data_fwd grad_data_adj field_name
               = Inr (sel (eps_dataset m))"
    using assms(2) store_vjp_custom_Inr(1-3) [OF assms(1)] by auto
  from vjp_data_array_Inr [OF run] obtain interp_coords isel_coords e_fwd e_adj prod_fa e_sel e_dotted
    where ic: "interp_coords_of (coords (sel (eps_dataset self))) [''x'', ''y'', ''z''] = Inr interp_coords"
      and isc: "isel_coords_of (coords (sel (eps_dataset self))) [''x'', ''y'', ''z''] = Inr isel_coords"
      and rest: "field_components grad_data_fwd field_name = Some e_fwd"
        "field_components grad_data_adj field_name = Some e_adj"
        "xr_mul ops e_fwd e_adj = Inr prod_fa"
        "xr_isel ops ((''f'', 0) # isel_coords) prod_fa = Inr e_sel"
        "xr_interp ops interp_coords e_sel = Inr e_dotted"
        "coords (sel (eps_dataset m)) = coords (sel (eps_dataset self))"
        "nd_shape (values_nd (sel (eps_dataset m)))
             = map (\<lambda>(_, coord). length coord) (coords (sel (eps_dataset self)))"
        "nd_data (values_nd (sel (eps_dataset m))) = nd_data (xr_values ops (xr_real ops e_dotted))"
    by blast
  have a: "\<forall>d c. ((d, c) \<in> set interp_coords) =
                    (d \<in> {''x'', ''y'', ''z''} \<and> map_of (coords (sel (eps_dataset self))) d = Some c
                       \<and> 1 < length c)"
    using interp_coords_of_Inr [OF ic] by simp
  have b: "\<forall>d i. ((d, i) \<in> set isel_coords) =
                    (d \<in> {''x'', ''y'', ''z''} \<and> i = 0
                       \<and> (\<exists>c. map_of (coords (sel (eps_dataset self))) d = Some c \<and> length c \<le> 1))"
    using isel_coords_of_Inr [OF isc] by simp
  show ?thesis using a b rest store_vjp_custom_Inr(4) [OF assms(1)] by blast
qed

lemma sample_custom_run:
  "store_vjp_custom sample_ops sample_custom_medium
     (sample_data [1, 2] [0, 0] [5, 6]) (sample_data [3, 4] [1, 1] [1, 2]) ((0, 0, 0), (1, 1, 0)) 10
   = Inr \<lparr>eps_dataset =
            \<lparr>eps_xx = \<lparr>values_nd = \<lparr>nd_shape = [2, 1, 1, 1], nd_data = [3, 8]\<rparr>,
                       coords = [(''x'', [0, 1]), (''y'', [0]), (''z'', [0]), (''f'', [1])]\<rparr>,
             eps_yy = \<lparr>values_nd = \<lparr>nd_shape = [2, 1, 1, 1], nd_data = [0, 0]\<rparr>,
                       coords = [(''x'', [0, 1]), (''y'', [0]), (''z'', [0]), (''f'', [1])]\<rparr>,
             eps_zz = \<lparr>values_nd = \<lparr>nd_shape = [2, 1, 1, 1], nd_data = [5, 12]\<rparr>,
                       coords = [(''x'', [0, 1]), (''y'', [0]), (''z'', [0]), (''f'', [1])]\<rparr>\<rparr>,
          custom_fields = ()\<rparr>"
  by code_simp

lemma sample_custom_coords:
  "interp_coords_of (coords sample_array) [''x'', ''y'', ''z''] = Inr [(''x'', [0, 1])]"
  "isel_coords_of (coords sample_array) [''x'', ''y'', ''z''] = Inr [(''y'', 0), (''z'', 0)]"
  by code_simp+

theorem custom_store_vjp_component_witness:
  "store_vjp_custom sample_ops sample_custom_medium
     (sample_data [1, 2] [0, 0] [5, 6]) (sample_data [3, 4] [1, 1] [1, 2]) ((0, 0, 0), (1, 1, 0)) 10
   = Inr \<lparr>eps_dataset =
            \<lparr>eps_xx = \<lparr>values_nd = \<lparr>nd_shape = [2, 1, 1, 1], nd_data = [3, 8]\<rparr>,
                       coords = [(''x'', [0, 1]), (''y'', [0]), (''z'', [0]), (''f'', [1])]\<rparr>,
             eps_yy = \<lparr>values_nd = \<lparr>nd_shape = [2, 1, 1, 1], nd_data = [0, 0]\<rparr>,
                       coords = [(''x'', [0, 1]), (''y'', [0]), (''z'', [0]), (''f'', [1])]\<rparr>,
             eps_zz = \<lparr>values_nd = \<lparr>nd_shape = [2, 1, 1, 1], nd_data = [5, 12]\<rparr>,
                       coords = [(''x'', [0, 1]), (''y'', [0]), (''z'', [0]), (''f'', [1])]\<rparr>\<rparr>,
          custom_fields = ()\<rparr>
   \<and> (eps_xx, ''Ex'') \<in> {(eps_xx, ''Ex''), (eps_yy, ''Ey''), (eps_zz, ''Ez'')}
   \<and> interp_coords_of (coords (eps_xx (eps_dataset sample_custom_medium))) [''x'', ''y'', ''z'']
        = Inr [(''x'', [0, 1])]
   \<and> isel_coords_of (coords (eps_xx (eps_dataset sample_custom_medium))) [''x'', ''y'', ''z'']
        = Inr [(''y'', 0), (''z'', 0)]
   \<and> (\<exists>interp_coords isel_coords e_fwd e_adj prod_fa e_sel e_dotted.
           (\<forall>d c. ((d, c) \<in> set interp_coords) =
                    (d \<in> {''x'', ''y'', ''z''}
                       \<and> map_of (coords (eps_xx (eps_dataset sample_custom_medium))) d = Some c
                       \<and> 1 < length c))
         \<and> (\<forall>d i. ((d, i) \<in> set isel_coords) =
                    (d \<in> {''x'', ''y'', ''z''} \<and> i = 0
                       \<and> (\<exists>c. map_of (coords (eps_xx (eps_dataset sample_custom_medium))) d = Some c
                              \<and> length c \<le> 1)))
         \<and> field_components (sample_data [1, 2] [0, 0] [5, 6]) ''Ex'' = Some e_fwd
         \<and> field_components (sample_data [3, 4] [1, 1] [1, 2]) ''Ex'' = Some e_adj
         \<and> xr_mul sample_ops e_fwd e_adj = Inr prod_fa
         \<and> xr_isel sample_ops ((''f'', 0) # isel_coords) prod_fa = Inr e_sel
         \<and> xr_interp sample_ops interp_coords e_sel = Inr e_dotted
         \<and> [(''x'', [0, 1]), (''y'', [0]), (''z'', [0]), (''f'', [1 :: real])]
             = coords (eps_xx (eps_dataset sample_custom_medium))
         \<and> [2, 1, 1, 1]
             = map (\<lambda>(_, coord). length coord) (coords (eps_xx (eps_dataset sample_custom_medium)))
         \<and> [3, 8] = nd_data (xr_values sample_ops (xr_real sample_ops e_dotted)))"
proof -
  have mem: "(eps_xx, ''Ex'') \<in> {(eps_xx, ''Ex''), (eps_yy, ''Ey''), (eps_zz, ''Ez'')}" by simp
  have crd: "interp_coords_of (coords (eps_xx (eps_dataset sample_custom_medium))) [''x'', ''y'', ''z'']
        = Inr [(''x'', [0, 1])]"
    "isel_coords_of (coords (eps_xx (eps_dataset sample_custom_medium))) [''x'', ''y'', ''z'']
        = Inr [(''y'', 0), (''z'', 0)]"
    using sample_custom_coords by (simp_all add: sample_custom_medium_def)
  from custom_store_vjp_component [OF sample_custom_run mem]
  have "\<exists>interp_coords isel_coords e_fwd e_adj prod_fa e_sel e_dotted.
           (\<forall>d c. ((d, c) \<in> set interp_coords) =
                    (d \<in> {''x'', ''y'', ''z''}
                       \<and> map_of (coords (eps_xx (eps_dataset sample_custom_medium))) d = Some c
                       \<and> 1 < length c))
         \<and> (\<forall>d i. ((d, i) \<in> set isel_coords) =
                    (d \<in> {''x'', ''y'', ''z''} \<and> i = 0
                       \<and> (\<exists>c. map_of (coords (eps_xx (eps_dataset sample_custom_medium))) d = Some c
                              \<and> length c \<le> 1)))
         \<and> field_components (sample_data [1, 2] [0, 0] [5, 6]) ''Ex'' = Some e_fwd
         \<and> field_components (sample_data [3, 4] [1, 1] [1, 2]) ''Ex'' = Some e_adj
         \<and> xr_mul sample_ops e_fwd e_adj = Inr prod_fa
         \<and> xr_isel sample_ops ((''f'', 0) # isel_coords) prod_fa = Inr e_sel
         \<and> xr_interp sample_ops interp_coords e_sel = Inr e_dotted
         \<and> [(''x'', [0, 1]), (''y'', [0]), (''z'', [0]), (''f'', [1 :: real])]
             = coords (eps_xx (eps_dataset sample_custom_medium))
         \<and> [2, 1, 1, 1]
             = map (\<lambda>(_, coord). length coord) (coords (eps_xx (eps_dataset sample_custom_medium)))
         \<and> [3, 8] = nd_data (xr_values sample_ops (xr_real sample_ops e_dotted))"
    by simp
  then show ?thesis using sample_custom_run mem crd by blast
qed

text \<open>
  Claim C10.  \<^verbatim>\<open>JaxCustomMedium.store_vjp\<close> does not read the simulation bounds or the
  wavelength: two calls on the same medium and field data return the same result
  (gradient or exception) whatever these two arguments are.
\<close>

theorem custom_store_vjp_ignores_bounds_and_wavelength:
  "store_vjp_custom ops self grad_data_fwd grad_data_adj sim_bounds1 wvl_mat1
     = store_vjp_custom ops self grad_data_fwd grad_data_adj sim_bounds2 wvl_mat2"
  by (simp add: store_vjp_custom_def)


section \<open>Properties of the legacy export\<close>

lemma struct_geometry_supported:
  "struct_geometry struct geom = Inr (Some entry) \<Longrightarrow>
     supported_geometry geom \<and> map_of entry ''type'' \<noteq> None"
  by (cases geom)
     (auto simp: struct_geometry_def py_update_def update_conv' split: prod.splits if_splits)

lemma struct_geometry_unsupported:
  "struct_geometry struct geom = Inr None \<Longrightarrow> \<not> supported_geometry geom"
  by (cases geom) (auto simp: struct_geometry_def split: prod.splits if_splits)

lemma struct_loop_skips_unsupported:
  "struct_loop mmap istruct struct_list ss = Inr r \<Longrightarrow>
     length r = length struct_list + length (filter (\<lambda>s. supported_geometry (geometry s)) ss)
     \<and> take (length struct_list) r = struct_list
     \<and> (\<forall>j \<in> set (drop (length struct_list) r). has_key ''type'' j)"
proof (induction ss arbitrary: istruct struct_list)
  case Nil
  then show ?case by simp
next
  case (Cons s ss)
  from Cons.prems obtain imed where im: "map_of mmap (medium s) = Some imed"
    by (auto split: option.splits)
  let ?struct = "[(''name'', JStr (''struct_'' @ str_nat istruct)), (''mat_index'', JInt (int imed))]"
  from Cons.prems im obtain res where g: "struct_geometry ?struct (geometry s) = Inr res"
    by (auto simp: Let_def split: sum.splits)
  show ?case
  proof (cases res)
    case None
    with Cons.prems im g have "struct_loop mmap (Suc istruct) struct_list ss = Inr r"
      by (simp add: Let_def)
    from Cons.IH [OF this] struct_geometry_unsupported [OF g [unfolded None]]
    show ?thesis by simp
  next
    case (Some entry)
    with Cons.prems im g have "struct_loop mmap (Suc istruct) (struct_list @ [JDict entry]) ss = Inr r"
      by (simp add: Let_def)
    note IH = Cons.IH [OF this]
    from struct_geometry_supported [OF g [unfolded Some]]
    have sup: "supported_geometry (geometry s)" and ty: "has_key ''type'' (JDict entry)"
      by (simp_all add: has_key_def)
    have tk: "take (length struct_list) r = struct_list"
    proof -
      have "take (length struct_list) (take (length (struct_list @ [JDict entry])) r) = struct_list"
        using IH by simp
      then show ?thesis by (simp add: min_def)
    qed
    have "r ! length struct_list = JDict entry"
    proof -
      have "length struct_list < length r" using IH by simp
      moreover have "take (Suc (length struct_list)) r = struct_list @ [JDict entry]" using IH by simp
      ultimately show ?thesis
        by (metis lessI nth_append_length nth_take)
    qed
    moreover have "length struct_list < length r" using IH by simp
    ultimately have dr: "drop (length struct_list) r = JDict entry # drop (Suc (length struct_list)) r"
      by (metis Cons_nth_drop_Suc)
    show ?thesis using IH sup ty tk dr by simp
  qed
qed

text \<open>
  Claim C9.  The structures loop does skip a geometry it has no branch for
  (\<open>struct_loop_skips_unsupported\<close>), but the sources loop and the monitors loop append
  outside their \<^verbatim>\<open>if\<close> chains.  A source of an unsupported kind raises
  \<^verbatim>\<open>UnboundLocalError\<close> when it comes first and is emitted as a second copy of the
  previous source's record otherwise; a monitor of an unsupported kind is emitted as a
  record with neither \<^verbatim>\<open>type\<close> nor any of the fields that depend on the kind.
\<close>

theorem legacy_export_unsupported_not_skipped:
  "\<not> supported_source (OtherSource (GaussianPulse 2 1 5 0 1))
   \<and> old_json_sources
        \<lparr>structures = [], sources = [(''src0'', OtherSource (GaussianPulse 2 1 5 0 1))],
         monitors = [], medium_map = [], run_time = 1\<rparr>
       = Inl UnboundLocalError
   \<and> old_json_sources
        \<lparr>structures = [],
         sources = [(''src0'', VolumeSource (0, 0, 0) (1, 1, 1) (GaussianPulse 2 1 5 0 1) Jx),
                    (''src1'', OtherSource (GaussianPulse 2 1 5 0 1))],
         monitors = [], medium_map = [], run_time = 1\<rparr>
       = Inr [JDict
               [(''name'', JStr ''src0''), (''type'', JStr ''VolumeSource''),
                (''source_time'',
                 JDict
                  [(''type'', JStr ''GaussianPulse''),
                   (''frequency'', JFloat (2 * (1 / 10 ^ 12))),
                   (''fwidth'', JFloat (1 * (1 / 10 ^ 12))), (''offset'', JFloat 5),
                   (''phase'', JFloat 0)]),
                (''center'', JList [JFloat 0, JFloat 0, JFloat 0]),
                (''size'', JList [JFloat 1, JFloat 1, JFloat 1]),
                (''component'', JStr ''Ex''), (''amplitude'', JFloat 1)],
              JDict
               [(''name'', JStr ''src0''), (''type'', JStr ''VolumeSource''),
                (''source_time'',
                 JDict
                  [(''type'', JStr ''GaussianPulse''),
                   (''frequency'', JFloat (2 * (1 / 10 ^ 12))),
                   (''fwidth'', JFloat (1 * (1 / 10 ^ 12))), (''offset'', JFloat 5),
                   (''phase'', JFloat 0)]),
                (''center'', JList [JFloat 0, JFloat 0, JFloat 0]),
                (''size'', JList [JFloat 1, JFloat 1, JFloat 1]),
                (''component'', JStr ''Ex''), (''amplitude'', JFloat 1)]]
   \<and> \<not> supported_monitor (OtherMonitor (0, 0, 0) (1, 1, 0))
   \<and> old_json_monitors
        \<lparr>structures = [], sources = [],
         monitors = [(''mnt0'', OtherMonitor (0, 0, 0) (1, 1, 0))], medium_map = [], run_time = 1\<rparr>
       = Inr [JDict
               [(''name'', JStr ''mnt0''), (''x_cent'', JFloat 0),
                (''y_cent'', JFloat 0), (''z_cent'', JFloat 0),
                (''x_span'', JFloat 1), (''y_span'', JFloat 1),
                (''z_span'', JFloat 0)]]
   \<and> \<not> has_key ''type''
         (JDict
           [(''name'', JStr ''mnt0''), (''x_cent'', JFloat 0),
            (''y_cent'', JFloat 0), (''z_cent'', JFloat 0),
            (''x_span'', JFloat 1), (''y_span'', JFloat 1),
            (''z_span'', JFloat 0)])
   \<and> \<not> supported_geometry OtherGeometry
   \<and> old_json_structures
        \<lparr>structures = [\<lparr>geometry = OtherGeometry, medium = Medium 2 0\<rparr>,
                        \<lparr>geometry = Sphere (0, 0, 0) 1, medium = Medium 2 0\<rparr>],
         sources = [], monitors = [], medium_map = [(Medium 2 0, 0)], run_time = 1\<rparr>
       = Inr ([JDict
                [(''name'', JStr ''mat_0''), (''type'', JStr ''Medium''),
                 (''permittivity'', JList [JFloat 2, JFloat 2, JFloat 2]),
                 (''conductivity'', JList [JFloat 0, JFloat 0, JFloat 0]),
                 (''poles'', JList [])]],
              [JDict
                [(''name'', JStr ''struct_1''), (''mat_index'', JInt 0),
                 (''type'', JStr ''Sphere''), (''x_cent'', JFloat 0),
                 (''y_cent'', JFloat 0), (''z_cent'', JFloat 0),
                 (''radius'', JFloat 1)]])"
  by (intro conjI; code_simp)


section \<open>Round trip of the tree decomposition\<close>

lemma unflatten_flatten_array:
  "unflatten_array (snd (flatten_array a)) (fst (flatten_array a)) = a"
  by (simp add: unflatten_array_def flatten_array_def)

text \<open>
  Claim C8.  For every valid medium of the three variants, flattening and then
  unflattening gives the medium back.
\<close>

theorem tree_unflatten_flatten:
  assumes "valid_medium x"
  shows "(case tree_flatten x of (leaves, aux) \<Rightarrow> tree_unflatten aux leaves) = Inr x"
proof (cases x)
  case (IsMedium m)
  then show ?thesis by simp
next
  case (IsAnisotropic m)
  then show ?thesis by simp
next
  case (IsCustom m)
  let ?ax = "eps_xx (eps_dataset m)" and ?ay = "eps_yy (eps_dataset m)" and ?az = "eps_zz (eps_dataset m)"
  from assms IsCustom have v:
    "length (nd_data (values_nd ?ax)) = prod_list (nd_shape (values_nd ?ax))"
    "length (nd_data (values_nd ?ay)) = prod_list (nd_shape (values_nd ?ay))"
    "length (nd_data (values_nd ?az)) = prod_list (nd_shape (values_nd ?az))"
    by (simp_all add: valid_array_def)
  have "tree_unflatten
          (AuxCustom (snd (flatten_array ?ax)) (snd (flatten_array ?ay)) (snd (flatten_array ?az))
             (custom_fields m))
          (fst (flatten_array ?ax) @ fst (flatten_array ?ay) @ fst (flatten_array ?az))
        = Inr (IsCustom m)"
    using v by (simp add: flatten_array_def unflatten_array_def Let_def)
  then show ?thesis using IsCustom by (simp add: case_prod_unfold)
qed

theorem tree_unflatten_flatten_witness:
  "valid_medium (IsCustom sample_custom_medium :: (unit, unit, unit) JaxMediumType)
   \<and> tree_flatten (IsCustom sample_custom_medium :: (unit, unit, unit) JaxMediumType)
       = ([2, 2, 2, 2, 2, 2],
          AuxCustom ([2, 1, 1, 1], [(''x'', [0, 1]), (''y'', [0]), (''z'', [0]), (''f'', [1])])
                    ([2, 1, 1, 1], [(''x'', [0, 1]), (''y'', [0]), (''z'', [0]), (''f'', [1])])
                    ([2, 1, 1, 1], [(''x'', [0, 1]), (''y'', [0]), (''z'', [0]), (''f'', [1])]) ())
   \<and> tree_unflatten
        (AuxCustom ([2, 1, 1, 1], [(''x'', [0, 1]), (''y'', [0]), (''z'', [0]), (''f'', [1])])
                   ([2, 1, 1, 1], [(''x'', [0, 1]), (''y'', [0]), (''z'', [0]), (''f'', [1])])
                   ([2, 1, 1, 1], [(''x'', [0, 1]), (''y'', [0]), (''z'', [0]), (''f'', [1])]) ())
        [2, 2, 2, 2, 2, 2]
       = Inr (IsCustom sample_custom_medium :: (unit, unit, unit) JaxMediumType)"
proof -
  have v: "valid_medium (IsCustom sample_custom_medium :: (unit, unit, unit) JaxMediumType)"
    by (simp add: sample_custom_medium_def sample_array_def valid_array_def)
  have f: "tree_flatten (IsCustom sample_custom_medium :: (unit, unit, unit) JaxMediumType)
       = ([2, 2, 2, 2, 2, 2],
          AuxCustom ([2, 1, 1, 1], [(''x'', [0, 1]), (''y'', [0]), (''z'', [0]), (''f'', [1])])
                    ([2, 1, 1, 1], [(''x'', [0, 1]), (''y'', [0]), (''z'', [0]), (''f'', [1])])
                    ([2, 1, 1, 1], [(''x'', [0, 1]), (''y'', [0]), (''z'', [0]), (''f'', [1])]) ())"
    by (simp add: sample_custom_medium_def sample_array_def flatten_array_def)
  from tree_unflatten_flatten [OF v] show ?thesis unfolding f using v by simp
qed

end
